theory Spec2Isabelle
  imports Complex_Main "HOL-Library.Multiset"
begin

section \<open>JavaScript values the services inspect\<close>

text \<open>
  An identifier argument (\<open>deckId\<close>, \<open>id\<close>) reaches the services as \<open>undefined\<close>,
  \<open>null\<close> or a string. \<open>falsy\<close> is JavaScript's \<open>!x\<close>, \<open>typeof\<close> its
  \<open>typeof x\<close>, and \<open>template\<close> the text that \<open>${x}\<close> puts into a template literal.
\<close>

datatype js_str = JUndefined | JNull | JString string

fun falsy :: "js_str \<Rightarrow> bool" where
  "falsy JUndefined = True"
| "falsy JNull = True"
| "falsy (JString s) = (s = [])"

fun typeof :: "js_str \<Rightarrow> string" where
  "typeof JUndefined = ''undefined''"
| "typeof JNull = ''object''"
| "typeof (JString s) = ''string''"

fun template :: "js_str \<Rightarrow> string" where
  "template JUndefined = ''undefined''"
| "template JNull = ''null''"
| "template (JString s) = s"

text \<open>
  A thrown value is an \<open>Error\<close> object: its \<open>name\<close> and its \<open>message\<close>.
  \<open>new Error(msg)\<close> has the name \<open>Error\<close>; the runtime's own failures on a missing
  property are \<open>TypeError\<close>s.
\<close>

datatype js_error = JsError (error_name: string) (error_message: string)

definition new_Error :: "string \<Rightarrow> js_error" where
  "new_Error msg = JsError ''Error'' msg"

definition TypeError :: "string \<Rightarrow> js_error" where
  "TypeError msg = JsError ''TypeError'' msg"

type_synonym timestamp = nat

section \<open>Moderation verdicts and their aggregation\<close>

record flagged_card =
  flagged_term :: string
  flagged_definition :: string
  reason :: string

text \<open>
  \<open>flagged_cards\<close> is \<open>None\<close> when the property is missing or is not an array
  (\<open>Array.isArray\<close> is false), and \<open>Some xs\<close> when it is the array \<open>xs\<close>.
\<close>

record verdict =
  is_appropriate :: bool
  moderation_decision :: string
  flagged_cards :: "flagged_card list option"

record overall =
  overall_verdict :: verdict

record moderation_response =
  response_data :: overall

text \<open>
  The body of the \<open>for (const response of aiResponses)\<close> loop of
  \<open>aggregateModerationResults\<close>, on the three local variables
  \<open>isAppropriate\<close>, \<open>inappropriateItems\<close> and \<open>moderationDecision\<close>.
\<close>

fun aggregate_loop ::
  "bool \<times> flagged_card list \<times> string \<Rightarrow> moderation_response list \<Rightarrow>
   bool \<times> flagged_card list \<times> string" where
  "aggregate_loop acc [] = acc"
| "aggregate_loop (isAppropriate, inappropriateItems, moderationDecision) (response # rest) =
     (let v = overall_verdict (response_data response) in
      if is_appropriate v then
        aggregate_loop (isAppropriate, inappropriateItems, moderationDecision) rest
      else
        aggregate_loop
          (False,
           (case flagged_cards v of
              Some (c # cs) \<Rightarrow> inappropriateItems @ (c # cs)
            | _ \<Rightarrow> inappropriateItems),
           moderation_decision v)
          rest)"

definition aggregateModerationResults :: "moderation_response list \<Rightarrow> overall" where
  "aggregateModerationResults aiResponses =
     (case aggregate_loop (True, [], ''Content is appropriate'') aiResponses of
        (isAppropriate, inappropriateItems, moderationDecision) \<Rightarrow>
          \<lparr>overall_verdict =
             \<lparr>is_appropriate = isAppropriate,
              moderation_decision = moderationDecision,
              flagged_cards = Some inappropriateItems\<rparr>\<rparr>)"

subsection \<open>The reference fold of the specification\<close>

text \<open>
  The aggregator as the specification words it: a left fold over the responses, from the
  verdict "appropriate, \<open>Content is appropriate\<close>, nothing flagged". An inappropriate
  response clears the flag, overwrites the decision and appends its flagged items; an
  empty or malformed flagged list is skipped; an appropriate response changes nothing.
\<close>

definition spec_initial :: verdict where
  "spec_initial =
     \<lparr>is_appropriate = True,
      moderation_decision = ''Content is appropriate'',
      flagged_cards = Some []\<rparr>"

definition spec_flagged_items :: "verdict \<Rightarrow> flagged_card list" where
  "spec_flagged_items v = (case flagged_cards v of None \<Rightarrow> [] | Some cs \<Rightarrow> cs)"

definition spec_step :: "verdict \<Rightarrow> moderation_response \<Rightarrow> verdict" where
  "spec_step acc response =
     (let v = overall_verdict (response_data response) in
      if is_appropriate v then acc
      else \<lparr>is_appropriate = False,
            moderation_decision = moderation_decision v,
            flagged_cards = Some (spec_flagged_items acc @ spec_flagged_items v)\<rparr>)"

definition spec_aggregate :: "moderation_response list \<Rightarrow> overall" where
  "spec_aggregate responses = \<lparr>overall_verdict = foldl spec_step spec_initial responses\<rparr>"

text \<open>The inappropriate responses of a run, in order.\<close>

definition inappropriate :: "moderation_response list \<Rightarrow> verdict list" where
  "inappropriate responses =
     filter (\<lambda>v. \<not> is_appropriate v) (map (\<lambda>r. overall_verdict (response_data r)) responses)"

section \<open>Stored documents\<close>

text \<open>
  A Firestore document is a list of fields; \<open>map_of\<close> reads a field, and a field that
  is not in the list is absent from the document.
\<close>

datatype field_value =
  FId js_str
| FStr string
| FTime timestamp
| FVerdict "verdict option"

type_synonym document = "(string \<times> field_value) list"

section \<open>Decks, quizzes and the generation result\<close>

record flashcard =
  flashcard_id :: string
  flashcard_term :: string
  flashcard_definition :: string

text \<open>
  \<open>deck.flashcards\<close> is \<open>None\<close> when it is missing or not an array. The result of
  \<open>getDeckAndCheckField\<close> is read through \<open>deckInfo?.exists\<close> and
  \<open>deckInfo.field_exists\<close>.
\<close>

record deck =
  flashcards :: "flashcard list option"

record deck_info =
  exists :: bool
  field_exists :: bool

record quiz_meta =
  associated_deck_id :: js_str
  created_at :: timestamp
  is_deleted :: bool
  quiz_type :: string
  updated_at :: timestamp

text \<open>A quiz document as the repository returns it: the stored fields and the document's \<open>id\<close>.\<close>

record quiz_doc = quiz_meta +
  doc_id :: string

record choice =
  choice_text :: string
  is_correct :: bool

record question =
  question_text :: string
  related_flashcard_id :: string
  choices :: "choice list"

record quiz_object = quiz_doc +
  questions :: "question list"

record quiz_payload =
  quizContent :: quiz_object

text \<open>
  What \<open>sendPromptInline\<close> resolves to: \<open>result.quiz_data\<close> may be missing, and so
  may the properties read from it, \<open>quiz\<close> (\<open>None\<close>: missing or not an array) and
  \<open>overall_verdict\<close>.
\<close>

record quiz_data =
  quiz :: "question list option"
  overall_verdict_field :: "verdict option"

record ai_result =
  quiz_data :: "quiz_data option"

datatype schema = quizSchema | moderatedFlashcardsSchema

datatype prompt = quizPrompt nat | moderationPrompt

datatype file_content = JSON_stringify "flashcard list" | Text string

section \<open>Calls to the collaborators\<close>

text \<open>
  Each awaited call to a repository, to the generation capability or to the file system
  is recorded, with its arguments, in the order the service makes it. \<open>Unlink\<close> is
  \<open>fs.unlink\<close>, the call by which \<open>cleanupTempFile\<close> removes a temporary file.
\<close>

datatype call =
  GetDeckAndCheckField js_str string
| GetQuizByDeckIDAndQuizType js_str string
| GetDeckById js_str
| GetNewFlashcards js_str "timestamp option"
| WriteFile string file_content
| SendPromptInline schema prompt string string
| CreateQuizForDeck quiz_meta
| CreateQuestionAndAnswer string "question list"
| UpdateDeck js_str timestamp
| GetQuizByID string string
| DbAdd string document
| DbQuery string string js_str nat
| Unlink string

text \<open>
  The collaborators are not part of the services. A run is given what each of them
  answers: a value, or the error it throws (\<open>Inl\<close>). \<open>timeStamp\<close> is the constant of
  the Firebase configuration; \<open>draw i\<close> is the random number drawn by the shuffle at
  index \<open>i\<close>.
\<close>

record env =
  timeStamp :: timestamp
  draw :: "nat \<Rightarrow> nat"
  getDeckAndCheckField :: "js_str \<Rightarrow> string \<Rightarrow> js_error + deck_info option"
  getQuizByDeckIDAndQuizType :: "js_str \<Rightarrow> string \<Rightarrow> js_error + quiz_doc list option"
  getDeckById :: "js_str \<Rightarrow> js_error + deck"
  getNewFlashcards :: "js_str \<Rightarrow> timestamp option \<Rightarrow> js_error + flashcard list"
  writeFile :: "string \<Rightarrow> file_content \<Rightarrow> js_error + unit"
  sendPromptInline :: "schema \<Rightarrow> prompt \<Rightarrow> string \<Rightarrow> string \<Rightarrow> js_error + ai_result option"
  createQuizForDeck :: "quiz_meta \<Rightarrow> js_error + string"
  createQuestionAndAnswer :: "string \<Rightarrow> question list \<Rightarrow> js_error + unit"
  updateDeck :: "js_str \<Rightarrow> timestamp \<Rightarrow> js_error + unit"
  getQuizByID :: "string \<Rightarrow> string \<Rightarrow> js_error + quiz_object"
  db_add :: "string \<Rightarrow> document \<Rightarrow> js_error + string"
  db_query :: "string \<Rightarrow> string \<Rightarrow> js_str \<Rightarrow> nat \<Rightarrow> js_error + (string \<times> document) list"

text \<open>
  An asynchronous computation: from the calls made so far to its outcome (a thrown error
  or a value) and the calls made by then. \<open>io_call\<close> is an awaited call, \<open>io_bind\<close>
  sequencing (an error skips the rest), \<open>io_catch\<close> a \<open>try\<close>/\<open>catch\<close> block.
\<close>

type_synonym 'a io = "call list \<Rightarrow> (js_error + 'a) \<times> call list"

definition io_return :: "'a \<Rightarrow> 'a io" where
  "io_return x = (\<lambda>tr. (Inr x, tr))"

definition io_throw :: "js_error \<Rightarrow> 'a io" where
  "io_throw e = (\<lambda>tr. (Inl e, tr))"

definition io_lift :: "js_error + 'a \<Rightarrow> 'a io" where
  "io_lift r = (\<lambda>tr. (r, tr))"

definition io_call :: "call \<Rightarrow> js_error + 'a \<Rightarrow> 'a io" where
  "io_call c r = (\<lambda>tr. (r, tr @ [c]))"

definition io_bind :: "'a io \<Rightarrow> ('a \<Rightarrow> 'b io) \<Rightarrow> 'b io" where
  "io_bind m f = (\<lambda>tr. case m tr of (Inl e, tr') \<Rightarrow> (Inl e, tr') | (Inr x, tr') \<Rightarrow> f x tr')"

definition io_catch :: "'a io \<Rightarrow> (js_error \<Rightarrow> 'a io) \<Rightarrow> 'a io" where
  "io_catch m h = (\<lambda>tr. case m tr of (Inl e, tr') \<Rightarrow> h e tr' | (Inr x, tr') \<Rightarrow> (Inr x, tr'))"

section \<open>Shuffle and selection\<close>

text \<open>
  Modelled from the spec: \<open>fischerYatesShuffle\<close> of \<open>utils/utils.js\<close>, which is not
  among the sources. For index \<open>i\<close> from the last down to 1, an index \<open>j\<close> in
  \<open>[0, i]\<close> is drawn and the elements at \<open>i\<close> and \<open>j\<close> are swapped.
\<close>

fun fischerYates_loop :: "(nat \<Rightarrow> nat) \<Rightarrow> nat \<Rightarrow> 'a list \<Rightarrow> 'a list" where
  "fischerYates_loop rnd 0 xs = xs"
| "fischerYates_loop rnd (Suc i) xs =
     (let j = rnd (Suc i) mod (Suc i + 1) in
      fischerYates_loop rnd i (xs[Suc i := xs ! j, j := xs ! Suc i]))"

definition fischerYatesShuffle :: "(nat \<Rightarrow> nat) \<Rightarrow> 'a list \<Rightarrow> 'a list" where
  "fischerYatesShuffle rnd xs = fischerYates_loop rnd (length xs - 1) xs"

text \<open>
  \<open>array.slice(0, end)\<close> for an integer \<open>end\<close>: a negative \<open>end\<close> counts from the
  end of the array, and the result never reaches beyond the array.
\<close>

definition slice0 :: "int \<Rightarrow> 'a list \<Rightarrow> 'a list" where
  "slice0 end xs =
     (let len = int (length xs);
          final = (if end < 0 then max (len + end) 0 else min end len)
      in take (nat final) xs)"

text \<open>\<open>Math.ceil(n * 0.5)\<close> for an array length \<open>n\<close>.\<close>

definition ceil_half :: "nat \<Rightarrow> int" where
  "ceil_half n = (int n + 1) div 2"

definition exceeds_error :: js_error where
  "exceeds_error =
     JsError ''EXCEEDS_AVAILABLE_CARDS'' ''Requested number of flashcards exceeds available cards.''"

text \<open>
  The selection that ends each of the three paths of \<open>geminiQuizService\<close> (the same
  statements, three times). \<open>select\<close> is what follows the shuffle: the count
  defaults to half of the shuffled questions, a count beyond them is refused, and the
  first \<open>numToReturn\<close> of them are kept.
\<close>

definition select :: "'a list \<Rightarrow> int option \<Rightarrow> js_error + 'a list" where
  "select shuffledQuizzes numOfQuiz =
     (let numToReturn = (case numOfQuiz of
                           None \<Rightarrow> ceil_half (length shuffledQuizzes)
                         | Some n \<Rightarrow> n)
      in if numToReturn > int (length shuffledQuizzes) then Inl exceeds_error
         else Inr (slice0 numToReturn shuffledQuizzes))"

definition select_tail :: "(nat \<Rightarrow> nat) \<Rightarrow> int option \<Rightarrow> quiz_object \<Rightarrow> js_error + quiz_object" where
  "select_tail rnd numOfQuiz quizObject =
     (let quizzes = questions quizObject;
          shuffledQuizzes = fischerYatesShuffle rnd quizzes
      in case select shuffledQuizzes numOfQuiz of
           Inl error \<Rightarrow> Inl error
         | Inr selectedQuizzes \<Rightarrow> Inr (quizObject\<lparr>questions := selectedQuizzes\<rparr>))"

section \<open>The quiz service\<close>

text \<open>The requester's \<open>id\<close> argument of the services is written \<open>uid\<close>.\<close>

record 'd envelope =
  status :: nat
  request_owner_id :: js_str
  message :: string
  data :: "'d option"

text \<open>
  \<open>array.join(sep)\<close> on strings, and Node's POSIX \<open>path.join(dir, name)\<close>: the
  non-empty arguments are joined with \<open>/\<close> and the result is normalised. Normalising
  drops empty and \<open>.\<close> segments and lets a \<open>..\<close> segment remove the segment before
  it (above the start of a relative path it is kept, above the root it is dropped); an
  absolute path stays absolute and a trailing separator stays.
\<close>

fun join :: "string \<Rightarrow> string list \<Rightarrow> string" where
  "join sep [] = []"
| "join sep [x] = x"
| "join sep (x # y # ys) = x @ sep @ join sep (y # ys)"

fun split_sep :: "string \<Rightarrow> string list" where
  "split_sep [] = [[]]"
| "split_sep (c # cs) =
     (if c = CHR ''/'' then [] # split_sep cs
      else (case split_sep cs of seg # segs \<Rightarrow> (c # seg) # segs | [] \<Rightarrow> [[c]]))"

definition normalize_step :: "bool \<Rightarrow> string list \<Rightarrow> string \<Rightarrow> string list" where
  "normalize_step allowAboveRoot res seg =
     (if seg = [] \<or> seg = ''.'' then res
      else if seg = ''..'' then
        (if res \<noteq> [] \<and> last res \<noteq> ''..'' then butlast res
         else if allowAboveRoot then res @ [''..'']
         else res)
      else res @ [seg])"

definition normalizeString :: "string \<Rightarrow> bool \<Rightarrow> string" where
  "normalizeString path allowAboveRoot =
     join ''/'' (foldl (normalize_step allowAboveRoot) [] (split_sep path))"

definition normalize_path :: "string \<Rightarrow> string" where
  "normalize_path path =
     (case path of
        [] \<Rightarrow> ''.''
      | c # cs \<Rightarrow>
          (let isAbsolute = (c = CHR ''/'');
               trailingSeparator = (last path = CHR ''/'');
               p = normalizeString path (\<not> isAbsolute)
           in if p = [] then
                (if isAbsolute then ''/'' else if trailingSeparator then ''./'' else ''.'')
              else
                (let p' = (if trailingSeparator then p @ ''/'' else p)
                 in if isAbsolute then ''/'' @ p' else p')))"

definition path_join :: "string \<Rightarrow> string \<Rightarrow> string" where
  "path_join dir name =
     (case filter (\<lambda>arg. arg \<noteq> []) [dir, name] of
        [] \<Rightarrow> ''.''
      | args \<Rightarrow> normalize_path (join ''/'' args))"

text \<open>
  \<open>tmpFilePath\<close> of the quiz service and of the moderation service: the file
  \<open>downloadQuiz-${id}.txt\<close>, respectively \<open>moderateDeck-${id}.txt\<close>, in \<open>/tmp\<close>.
\<close>

definition quiz_tmp_file :: "js_str \<Rightarrow> string" where
  "quiz_tmp_file uid = path_join ''/tmp'' (''downloadQuiz-'' @ template uid @ ''.txt'')"

definition moderation_tmp_file :: "js_str \<Rightarrow> string" where
  "moderation_tmp_file uid = path_join ''/tmp'' (''moderateDeck-'' @ template uid @ ''.txt'')"

definition unsuccessful_message :: "js_str \<Rightarrow> string" where
  "unsuccessful_message deckId =
     ''Quiz creation for deck with id:'' @ template deckId @ '' is unsuccessful''"

text \<open>
  The shape check on the generation result, \<open>!result.quiz_data ||
  !Array.isArray(result.quiz_data.quiz)\<close>; reading \<open>quiz_data\<close> of a missing result is
  the runtime's \<open>TypeError\<close>.
\<close>

definition check_quiz_data :: "ai_result option \<Rightarrow> js_error + question list" where
  "check_quiz_data result =
     (case result of
        None \<Rightarrow> Inl (TypeError ''Cannot read properties of undefined (reading 'quiz_data')'')
      | Some r \<Rightarrow>
          (case quiz_data r of
             None \<Rightarrow> Inl (new_Error ''Invalid AI response: quiz_data is missing or not an array'')
           | Some qd \<Rightarrow>
               (case quiz qd of
                  None \<Rightarrow> Inl (new_Error ''Invalid AI response: quiz_data is missing or not an array'')
                | Some questionAndAnswer \<Rightarrow> Inr questionAndAnswer)))"

definition new_quiz_meta :: "env \<Rightarrow> js_str \<Rightarrow> quiz_meta" where
  "new_quiz_meta e deckId =
     \<lparr>associated_deck_id = deckId,
      created_at = timeStamp e,
      is_deleted = False,
      quiz_type = ''multiple-choice'',
      updated_at = timeStamp e\<rparr>"

text \<open>The first branch: the deck has no \<open>made_to_quiz_at\<close> field and no quiz.\<close>

definition create_path ::
  "env \<Rightarrow> js_str \<Rightarrow> js_str \<Rightarrow> int option \<Rightarrow> (nat \<times> quiz_payload option \<times> string) io" where
  "create_path e deckId uid numOfQuiz =
     io_bind (io_call (GetDeckById deckId) (getDeckById e deckId)) (\<lambda>deck.
       case flashcards deck of
         Some (f # fs) \<Rightarrow>
           (let deckTermsAndDef = f # fs;
                tmpFilePath = quiz_tmp_file uid
            in
            io_bind (io_call (WriteFile tmpFilePath (JSON_stringify deckTermsAndDef))
                       (writeFile e tmpFilePath (JSON_stringify deckTermsAndDef))) (\<lambda>_.
            io_bind (io_catch
                       (io_call (SendPromptInline quizSchema (quizPrompt (length deckTermsAndDef))
                                   tmpFilePath ''txt'')
                          (sendPromptInline e quizSchema (quizPrompt (length deckTermsAndDef))
                             tmpFilePath ''txt''))
                       (\<lambda>error. io_throw (new_Error ''AI_GENERATION_FAILED''))) (\<lambda>result.
            io_bind (io_lift (check_quiz_data result)) (\<lambda>questionAndAnswer.
            io_bind (io_call (CreateQuizForDeck (new_quiz_meta e deckId))
                       (createQuizForDeck e (new_quiz_meta e deckId))) (\<lambda>quizId.
            io_bind (io_call (CreateQuestionAndAnswer quizId questionAndAnswer)
                       (createQuestionAndAnswer e quizId questionAndAnswer)) (\<lambda>_.
            io_bind (io_call (UpdateDeck deckId (timeStamp e))
                       (updateDeck e deckId (timeStamp e))) (\<lambda>_.
            io_bind (io_call (GetQuizByID quizId ''multiple-choice'')
                       (getQuizByID e quizId ''multiple-choice'')) (\<lambda>quizObject.
            io_bind (io_lift (select_tail (draw e) numOfQuiz quizObject)) (\<lambda>selected.
            io_return
              (200, Some \<lparr>quizContent = selected\<rparr>,
               ''Quiz creation for deck with id:'' @ template deckId @ '' is successful''))))))))))
       | _ \<Rightarrow> io_return (400, None, unsuccessful_message deckId))"

text \<open>The second branch: the deck already has a quiz.\<close>

definition reconcile_path ::
  "env \<Rightarrow> js_str \<Rightarrow> js_str \<Rightarrow> int option \<Rightarrow> string \<Rightarrow> timestamp option \<Rightarrow>
   (nat \<times> quiz_payload option \<times> string) io" where
  "reconcile_path e deckId uid numOfQuiz quizId quizUpdateDate =
     io_bind (io_call (GetNewFlashcards deckId quizUpdateDate)
                (getNewFlashcards e deckId quizUpdateDate)) (\<lambda>newFlashcards.
       if length newFlashcards > 0 then
         (let tmpFilePath = quiz_tmp_file uid in
          io_bind (io_call (WriteFile tmpFilePath (JSON_stringify newFlashcards))
                     (writeFile e tmpFilePath (JSON_stringify newFlashcards))) (\<lambda>_.
          io_bind (io_catch
                     (io_bind
                        (io_call (SendPromptInline quizSchema (quizPrompt (length newFlashcards))
                                    tmpFilePath ''txt'')
                           (sendPromptInline e quizSchema (quizPrompt (length newFlashcards))
                              tmpFilePath ''txt''))
                        (\<lambda>result. io_lift (check_quiz_data result)))
                     (\<lambda>error. io_throw (new_Error ''AI_GENERATION_FAILED''))) (\<lambda>questionAndAnswer.
          io_bind (io_call (CreateQuestionAndAnswer quizId questionAndAnswer)
                     (createQuestionAndAnswer e quizId questionAndAnswer)) (\<lambda>_.
          io_bind (io_call (UpdateDeck deckId (timeStamp e))
                     (updateDeck e deckId (timeStamp e))) (\<lambda>_.
          io_bind (io_call (GetQuizByID quizId ''multiple-choice'')
                     (getQuizByID e quizId ''multiple-choice'')) (\<lambda>quizObject.
          io_bind (io_lift (select_tail (draw e) numOfQuiz quizObject)) (\<lambda>selected.
          io_return
            (200, Some \<lparr>quizContent = selected\<rparr>,
             ''Quiz creation for new flashcards in deck '' @ template deckId @
             '' is successful''))))))))
       else
         io_bind (io_call (GetQuizByID quizId ''multiple-choice'')
                    (getQuizByID e quizId ''multiple-choice'')) (\<lambda>quizObject.
         io_bind (io_lift (select_tail (draw e) numOfQuiz quizObject)) (\<lambda>selected.
         io_return
           (200, Some \<lparr>quizContent = selected\<rparr>,
            ''There is already a quiz made for this deck in the 'quiz' collection''))))"

text \<open>
  The branch the service takes after the two lookups: the \<open>if\<close> (the deck exists,
  has no \<open>made_to_quiz_at\<close> field and no quiz), the \<open>else if\<close> (there is a quiz),
  or neither.
\<close>

datatype path = CREATE | RECONCILE | NO_PATH

definition branch :: "deck_info option \<Rightarrow> quiz_doc list option \<Rightarrow> path" where
  "branch deckInfo quizzes =
     (if (case deckInfo of None \<Rightarrow> False | Some di \<Rightarrow> exists di \<and> \<not> field_exists di) \<and>
         (case quizzes of None \<Rightarrow> True | Some qs \<Rightarrow> length qs = 0)
      then CREATE
      else if (case quizzes of None \<Rightarrow> False | Some qs \<Rightarrow> length qs \<ge> 1)
      then RECONCILE
      else NO_PATH)"

text \<open>The body of the \<open>try\<close> block of \<open>geminiQuizService\<close>.\<close>

definition geminiQuizService_try ::
  "env \<Rightarrow> js_str \<Rightarrow> js_str \<Rightarrow> int option \<Rightarrow> (nat \<times> quiz_payload option \<times> string) io" where
  "geminiQuizService_try e deckId uid numOfQuiz =
     (if falsy deckId \<or> typeof deckId \<noteq> ''string'' then io_throw (new_Error ''INVALID_DECK_ID'')
      else if falsy uid \<or> typeof uid \<noteq> ''string'' then io_throw (new_Error ''INVALID_USER_ID'')
      else
        io_bind (io_call (GetDeckAndCheckField deckId ''made_to_quiz_at'')
                   (getDeckAndCheckField e deckId ''made_to_quiz_at'')) (\<lambda>deckInfo.
        io_bind (io_call (GetQuizByDeckIDAndQuizType deckId ''multiple-choice'')
                   (getQuizByDeckIDAndQuizType e deckId ''multiple-choice'')) (\<lambda>quizzes.
          let quizId = (case quizzes of Some (q # _) \<Rightarrow> doc_id q | _ \<Rightarrow> []);
              quizUpdateDate = (case quizzes of Some (q # _) \<Rightarrow> Some (updated_at q) | _ \<Rightarrow> None)
          in
          case branch deckInfo quizzes of
            CREATE \<Rightarrow> create_path e deckId uid numOfQuiz
          | RECONCILE \<Rightarrow> reconcile_path e deckId uid numOfQuiz quizId quizUpdateDate
          | NO_PATH \<Rightarrow> io_return (400, None, unsuccessful_message deckId))))"

text \<open>The \<open>catch\<close> block: the status and the message chosen from \<open>error.message\<close>.\<close>

definition quiz_catch :: "js_error \<Rightarrow> nat \<times> quiz_payload option \<times> string" where
  "quiz_catch error =
     (let message = ''Quiz creation failed: '' @ error_message error in
      if error_message error = ''INVALID_DECK_ID'' then (400, None, message)
      else if error_message error = ''INVALID_USER_ID'' then (400, None, message)
      else if error_message error = ''DECK_NOT_FOUND'' then (404, None, message)
      else if error_message error = ''MISSING_MADE_TO_QUIZ_AT_FIELD'' then (404, None, message)
      else if error_message error = ''NO_VALID_QUESTIONS'' then (400, None, message)
      else if error_message error = ''AI_GENERATION_FAILED'' then (502, None, message)
      else (500, None, ''A server-side error has occurred''))"

definition respond :: "js_str \<Rightarrow> nat \<times> 'd option \<times> string \<Rightarrow> 'd envelope" where
  "respond uid r =
     (case r of (statusCode, d, msg) \<Rightarrow>
        \<lparr>status = statusCode, request_owner_id = uid, message = msg, data = d\<rparr>)"

text \<open>
  \<open>geminiQuizService\<close>: the response envelope, and the calls the run has made.
\<close>

definition geminiQuizService ::
  "env \<Rightarrow> js_str \<Rightarrow> js_str \<Rightarrow> int option \<Rightarrow> quiz_payload envelope \<times> call list" where
  "geminiQuizService e deckId uid numOfQuiz =
     (case geminiQuizService_try e deckId uid numOfQuiz [] of
        (Inr r, tr) \<Rightarrow> (respond uid r, tr)
      | (Inl error, tr) \<Rightarrow> (respond uid (quiz_catch error), tr))"

section \<open>The count the controller passes on\<close>

text \<open>
  \<open>geminiQuizController\<close> computes \<open>limit = numOfQuiz ? parseInt(numOfQuiz, 10) : null\<close>
  and answers 400 itself when \<open>limit\<close> is not \<open>null\<close> and is \<open>NaN\<close>, below 5 or
  above 50; otherwise it calls the service with \<open>limit\<close>. The two arguments are
  whether \<open>numOfQuiz\<close> is truthy and what \<open>parseInt\<close> makes of it (an integer or
  \<open>NaN\<close>).
\<close>

datatype js_number = NaN | Num int

definition geminiQuizController_limit :: "bool \<Rightarrow> js_number \<Rightarrow> nat + int option" where
  "geminiQuizController_limit numOfQuiz_truthy parsed =
     (let limit = (if numOfQuiz_truthy then Some parsed else None) in
      case limit of
        None \<Rightarrow> Inr None
      | Some NaN \<Rightarrow> Inl 400
      | Some (Num n) \<Rightarrow> if n < 5 \<or> n > 50 then Inl 400 else Inr (Some n))"

section \<open>The publish request repository\<close>

text \<open>
  The object literal \<open>newRequest\<close> of \<open>createPublishRequest\<close>; \<open>timeStamp\<close> is the
  value exported by the Firebase configuration module.
\<close>

definition newRequest :: "env \<Rightarrow> js_str \<Rightarrow> js_str \<Rightarrow> verdict option \<Rightarrow> document" where
  "newRequest e userID deckID aiVerdict =
     [(''user_id'', FId userID),
      (''deck_id'', FId deckID),
      (''requested_at'', FTime (timeStamp e)),
      (''published_at'', FTime (timeStamp e)),
      (''status'', FStr ''FOR_APPROVAL''),
      (''mod_verdict'', FStr ''PENDING''),
      (''ai_verdict'', FVerdict aiVerdict)]"

text \<open>
  \<open>createPublishRequest\<close> adds the document to the collection \<open>publish_requests\<close>
  and returns the reference of the new document.
\<close>

definition createPublishRequest :: "env \<Rightarrow> js_str \<Rightarrow> js_str \<Rightarrow> verdict option \<Rightarrow> string io" where
  "createPublishRequest e userID deckID aiVerdict =
     io_call (DbAdd ''publish_requests'' (newRequest e userID deckID aiVerdict))
       (db_add e ''publish_requests'' (newRequest e userID deckID aiVerdict))"

text \<open>
  \<open>getPublishRequestByDeckId\<close>: at most one document whose \<open>deck_id\<close> is the given
  one; \<open>null\<close> when there is none, otherwise its fields with its \<open>id\<close> (a stored field
  \<open>id\<close> takes precedence, as in the object spread). An error is logged and thrown again.
\<close>

definition getPublishRequestByDeckId :: "env \<Rightarrow> js_str \<Rightarrow> document option io" where
  "getPublishRequestByDeckId e deckId =
     io_catch
       (io_bind (io_call (DbQuery ''publish_requests'' ''deck_id'' deckId 1)
                   (db_query e ''publish_requests'' ''deck_id'' deckId 1)) (\<lambda>snapshot.
          case snapshot of
            [] \<Rightarrow> io_return None
          | (ref, stored) # _ \<Rightarrow> io_return (Some (stored @ [(''id'', FStr ref)]))))
       (\<lambda>error. io_throw error)"

section \<open>The moderation service\<close>

definition newline :: string where
  "newline = [CHR 0x0A]"

definition formatPrompt :: "flashcard list \<Rightarrow> string" where
  "formatPrompt flashcardChunk =
     join (newline @ newline)
       (map (\<lambda>f. ''Definition: '' @ flashcard_definition f @ newline @
                  ''Term: '' @ flashcard_term f)
          flashcardChunk)"

text \<open>
  \<open>result.quiz_data.overall_verdict\<close>: reading through a missing \<open>result\<close> or a
  missing \<open>quiz_data\<close> is the runtime's \<open>TypeError\<close>; a missing \<open>overall_verdict\<close>
  is just \<open>undefined\<close>.
\<close>

definition read_overall_verdict :: "ai_result option \<Rightarrow> js_error + verdict option" where
  "read_overall_verdict result =
     (case result of
        None \<Rightarrow> Inl (TypeError ''Cannot read properties of undefined (reading 'quiz_data')'')
      | Some r \<Rightarrow>
          (case quiz_data r of
             None \<Rightarrow>
               Inl (TypeError ''Cannot read properties of undefined (reading 'overall_verdict')'')
           | Some qd \<Rightarrow> Inr (overall_verdict_field qd)))"

text \<open>The body of the \<open>try\<close> block of \<open>geminiModerationService\<close>.\<close>

definition geminiModerationService_try ::
  "env \<Rightarrow> js_str \<Rightarrow> js_str \<Rightarrow> (nat \<times> ai_result option \<times> string) io" where
  "geminiModerationService_try e deckId uid =
     (let tmpFilePath = moderation_tmp_file uid in
      io_bind (io_call (GetDeckById deckId) (getDeckById e deckId)) (\<lambda>deck.
      io_bind (io_lift
                 (case flashcards deck of
                    None \<Rightarrow> Inl (TypeError ''Cannot read properties of undefined (reading 'map')'')
                  | Some deckTermsAndDef \<Rightarrow> Inr (formatPrompt deckTermsAndDef))) (\<lambda>deckToString.
      io_bind (io_call (WriteFile tmpFilePath (Text deckToString))
                 (writeFile e tmpFilePath (Text deckToString))) (\<lambda>_.
      io_bind (io_call (SendPromptInline moderatedFlashcardsSchema moderationPrompt tmpFilePath ''txt'')
                 (sendPromptInline e moderatedFlashcardsSchema moderationPrompt tmpFilePath ''txt''))
        (\<lambda>result.
      io_bind (io_lift (read_overall_verdict result)) (\<lambda>overallVerdict.
      io_bind (createPublishRequest e uid deckId overallVerdict) (\<lambda>_.
      io_bind (getPublishRequestByDeckId e deckId) (\<lambda>_.
      io_return (200, result, ''Moderation review successful'')))))))))"

definition moderation_catch :: "js_error \<Rightarrow> nat \<times> ai_result option \<times> string" where
  "moderation_catch error =
     (let message = ''Moderation review failed: '' @ error_message error in
      if error_message error = ''DECK_NOT_FOUND'' then (404, None, message)
      else if error_message error = ''NO_VALID_FLASHCARDS'' then (404, None, message)
      else (500, None, message))"

text \<open>
  \<open>geminiModerationService\<close>: the response envelope, and the calls the run has made.
\<close>

definition geminiModerationService ::
  "env \<Rightarrow> js_str \<Rightarrow> js_str \<Rightarrow> ai_result envelope \<times> call list" where
  "geminiModerationService e deckId uid =
     (case geminiModerationService_try e deckId uid [] of
        (Inr r, tr) \<Rightarrow> (respond uid r, tr)
      | (Inl error, tr) \<Rightarrow> (respond uid (moderation_catch error), tr))"

section \<open>Temporary files\<close>

text \<open>
  The files that exist after a sequence of calls: \<open>writeFile\<close> creates (or overwrites)
  the file at its path, \<open>fs.unlink\<close> removes it, and no other call of the services
  touches the file system.
\<close>

fun files_after :: "call list \<Rightarrow> string set \<Rightarrow> string set" where
  "files_after [] files = files"
| "files_after (WriteFile p c # cs) files = files_after cs (insert p files)"
| "files_after (Unlink p # cs) files = files_after cs (files - {p})"
| "files_after (c # cs) files = files_after cs files"

text \<open>The calls that change persisted state, and the call to the generation capability.\<close>

fun is_write :: "call \<Rightarrow> bool" where
  "is_write (CreateQuizForDeck m) = True"
| "is_write (CreateQuestionAndAnswer q qs) = True"
| "is_write (UpdateDeck d t) = True"
| "is_write (DbAdd c d) = True"
| "is_write (WriteFile p c) = True"
| "is_write (Unlink p) = True"
| "is_write c = False"

fun is_generation :: "call \<Rightarrow> bool" where
  "is_generation (SendPromptInline s p f t) = True"
| "is_generation c = False"

section \<open>Persisted state\<close>

text \<open>
  Modelled from the spec: the effect of the write calls on the quiz store and the deck
  store, whose repositories (\<open>quizRepository.js\<close>, \<open>deckRepository.js\<close>) are not among
  the sources. \<open>appendQuestions\<close> appends the questions to those of the quiz,
  \<open>updateDeck\<close> with the patch \<open>{made_to_quiz_at: t}\<close> sets the deck's watermark,
  and a read changes nothing.
\<close>

record store =
  stored_questions :: "string \<Rightarrow> question list"
  made_to_quiz_at :: "js_str \<Rightarrow> timestamp option"

fun store_step :: "store \<Rightarrow> call \<Rightarrow> store" where
  "store_step st (CreateQuestionAndAnswer quizId qs) =
     st\<lparr>stored_questions := (stored_questions st)(quizId := stored_questions st quizId @ qs)\<rparr>"
| "store_step st (UpdateDeck deckId t) =
     st\<lparr>made_to_quiz_at := (made_to_quiz_at st)(deckId := Some t)\<rparr>"
| "store_step st c = st"

definition store_after :: "call list \<Rightarrow> store \<Rightarrow> store" where
  "store_after tr st = foldl store_step st tr"

section \<open>Example collaborators\<close>

text \<open>
  Collaborators that always succeed, answering the same whatever they are asked: the
  deck's watermark lookup, the quiz lookup, the flashcards newer than the quiz, the
  generation result and the questions stored in the quiz.
\<close>

definition example_card :: "string \<Rightarrow> flashcard" where
  "example_card k =
     \<lparr>flashcard_id = k, flashcard_term = ''term '' @ k, flashcard_definition = ''definition '' @ k\<rparr>"

definition example_question :: "string \<Rightarrow> question" where
  "example_question k =
     \<lparr>question_text = ''Which term is defined by definition '' @ k @ ''?'',
      related_flashcard_id = k,
      choices =
        [\<lparr>choice_text = ''term '' @ k, is_correct = True\<rparr>,
         \<lparr>choice_text = ''another term'', is_correct = False\<rparr>,
         \<lparr>choice_text = ''a third term'', is_correct = False\<rparr>,
         \<lparr>choice_text = ''a fourth term'', is_correct = False\<rparr>]\<rparr>"

definition example_doc :: quiz_doc where
  "example_doc =
     \<lparr>associated_deck_id = JString ''deck1'', created_at = 100, is_deleted = False,
      quiz_type = ''multiple-choice'', updated_at = 100, doc_id = ''quiz1''\<rparr>"

definition example_quiz :: "question list \<Rightarrow> quiz_object" where
  "example_quiz qs =
     \<lparr>associated_deck_id = JString ''deck1'', created_at = 100, is_deleted = False,
      quiz_type = ''multiple-choice'', updated_at = 100, doc_id = ''quiz1'', questions = qs\<rparr>"

definition example_result :: "question list option \<Rightarrow> ai_result" where
  "example_result qs = \<lparr>quiz_data = Some \<lparr>quiz = qs, overall_verdict_field = None\<rparr>\<rparr>"

definition example_verdict :: verdict where
  "example_verdict =
     \<lparr>is_appropriate = False,
      moderation_decision = ''content is inappropriate'',
      flagged_cards =
        Some [\<lparr>flagged_term = ''term a'', flagged_definition = ''definition a'',
               reason = ''The term contains profanity.''\<rparr>]\<rparr>"

definition example_moderation :: ai_result where
  "example_moderation =
     \<lparr>quiz_data = Some \<lparr>quiz = None, overall_verdict_field = Some example_verdict\<rparr>\<rparr>"

definition example_env ::
  "deck_info option \<Rightarrow> quiz_doc list option \<Rightarrow> flashcard list \<Rightarrow> ai_result option \<Rightarrow>
   question list \<Rightarrow> env" where
  "example_env deckInfo quizzes newCards result stored =
     \<lparr>timeStamp = 200,
      draw = (\<lambda>i. 0),
      getDeckAndCheckField = (\<lambda>deckId field. Inr deckInfo),
      getQuizByDeckIDAndQuizType = (\<lambda>deckId quizType. Inr quizzes),
      getDeckById = (\<lambda>deckId. Inr \<lparr>flashcards = Some [example_card ''a'', example_card ''b'']\<rparr>),
      getNewFlashcards = (\<lambda>deckId date. Inr newCards),
      writeFile = (\<lambda>file content. Inr ()),
      sendPromptInline = (\<lambda>schema prompt file mime. Inr result),
      createQuizForDeck = (\<lambda>meta. Inr ''quiz1''),
      createQuestionAndAnswer = (\<lambda>quizId qs. Inr ()),
      updateDeck = (\<lambda>deckId t. Inr ()),
      getQuizByID = (\<lambda>quizId quizType. Inr (example_quiz stored)),
      db_add = (\<lambda>collection doc. Inr ''request1''),
      db_query = (\<lambda>collection field v n. Inr [])\<rparr>"

text \<open>
  Four decks. \<open>create_env\<close>: no watermark, no quiz, two flashcards, generation answers
  two questions. \<open>extend_env\<close>: a quiz of two questions, one newer flashcard,
  generation answers one more question. \<open>reuse_env\<close>: a quiz of eight questions and
  no newer flashcard. \<open>inconsistent_env\<close>: the watermark is present and there is no
  quiz.
\<close>

definition deck1 :: js_str where
  "deck1 = JString ''deck1''"

definition user1 :: js_str where
  "user1 = JString ''user1''"

definition create_env :: env where
  "create_env =
     example_env (Some \<lparr>exists = True, field_exists = False\<rparr>) (Some []) []
       (Some (example_result (Some [example_question ''a'', example_question ''b''])))
       [example_question ''a'', example_question ''b'']"

definition extend_env :: env where
  "extend_env =
     example_env (Some \<lparr>exists = True, field_exists = True\<rparr>) (Some [example_doc])
       [example_card ''c'']
       (Some (example_result (Some [example_question ''c''])))
       [example_question ''a'', example_question ''b'', example_question ''c'']"

definition reuse_env :: env where
  "reuse_env =
     example_env (Some \<lparr>exists = True, field_exists = True\<rparr>) (Some [example_doc]) [] None
       (map example_question [''q1'', ''q2'', ''q3'', ''q4'', ''q5'', ''q6'', ''q7'', ''q8''])"

definition inconsistent_env :: env where
  "inconsistent_env =
     example_env (Some \<lparr>exists = True, field_exists = True\<rparr>) (Some []) [] None []"

definition moderation_env :: env where
  "moderation_env = example_env None None [] (Some example_moderation) []"

text \<open>
  The decks of \<open>create_env\<close> and \<open>extend_env\<close> with a malformed generation result:
  \<open>quiz_data.quiz\<close> is not an array.
\<close>

definition malformed_create_env :: env where
  "malformed_create_env =
     example_env (Some \<lparr>exists = True, field_exists = False\<rparr>) (Some []) []
       (Some (example_result None)) []"

definition malformed_extend_env :: env where
  "malformed_extend_env =
     example_env (Some \<lparr>exists = True, field_exists = True\<rparr>) (Some [example_doc])
       [example_card ''c'']
       (Some (example_result None))
       [example_question ''a'', example_question ''b'']"

text \<open>\<open>moderation_env\<close> with a publish-request store whose write fails.\<close>

definition failing_write_env :: env where
  "failing_write_env =
     moderation_env\<lparr>db_add := (\<lambda>collection doc. Inl (new_Error ''write failed''))\<rparr>"

section \<open>Names for the calls of a run\<close>

text \<open>The two lookups that open every run with valid identifiers.\<close>

definition lookups :: "js_str \<Rightarrow> call list" where
  "lookups deckId =
     [GetDeckAndCheckField deckId ''made_to_quiz_at'',
      GetQuizByDeckIDAndQuizType deckId ''multiple-choice'']"

text \<open>The calls of the CREATE path and of the extending RECONCILE path when every call succeeds.\<close>

definition create_calls :: "env \<Rightarrow> js_str \<Rightarrow> js_str \<Rightarrow> flashcard list \<Rightarrow> question list \<Rightarrow> string \<Rightarrow> call list" where
  "create_calls e deckId uid cards qa quizId =
     lookups deckId @
     [GetDeckById deckId,
      WriteFile (quiz_tmp_file uid) (JSON_stringify cards),
      SendPromptInline quizSchema (quizPrompt (length cards)) (quiz_tmp_file uid) ''txt'',
      CreateQuizForDeck (new_quiz_meta e deckId),
      CreateQuestionAndAnswer quizId qa,
      UpdateDeck deckId (timeStamp e),
      GetQuizByID quizId ''multiple-choice'']"

definition extend_calls :: "env \<Rightarrow> js_str \<Rightarrow> js_str \<Rightarrow> quiz_doc \<Rightarrow> flashcard list \<Rightarrow> question list \<Rightarrow> call list" where
  "extend_calls e deckId uid q cards qa =
     lookups deckId @
     [GetNewFlashcards deckId (Some (updated_at q)),
      WriteFile (quiz_tmp_file uid) (JSON_stringify cards),
      SendPromptInline quizSchema (quizPrompt (length cards)) (quiz_tmp_file uid) ''txt'',
      CreateQuestionAndAnswer (doc_id q) qa,
      UpdateDeck deckId (timeStamp e),
      GetQuizByID (doc_id q) ''multiple-choice'']"

definition reuse_calls :: "js_str \<Rightarrow> quiz_doc \<Rightarrow> call list" where
  "reuse_calls deckId q =
     lookups deckId @
     [GetNewFlashcards deckId (Some (updated_at q)),
      GetQuizByID (doc_id q) ''multiple-choice'']"

text \<open>The response of a run that reaches the selection with the quiz \<open>quizObject\<close>.\<close>

definition select_response ::
  "env \<Rightarrow> js_str \<Rightarrow> int option \<Rightarrow> quiz_object \<Rightarrow> string \<Rightarrow> quiz_payload envelope" where
  "select_response e uid numOfQuiz quizObject msg =
     (case select_tail (draw e) numOfQuiz quizObject of
        Inl error \<Rightarrow> respond uid (quiz_catch error)
      | Inr selected \<Rightarrow> respond uid (200, Some \<lparr>quizContent = selected\<rparr>, msg))"

text \<open>The calls of the moderation service up to the recording of the publish request.\<close>

definition moderation_calls ::
  "env \<Rightarrow> js_str \<Rightarrow> js_str \<Rightarrow> flashcard list \<Rightarrow> verdict option \<Rightarrow> call list" where
  "moderation_calls e deckId uid cards v =
     [GetDeckById deckId,
      WriteFile (moderation_tmp_file uid) (Text (formatPrompt cards)),
      SendPromptInline moderatedFlashcardsSchema moderationPrompt (moderation_tmp_file uid) ''txt'',
      DbAdd ''publish_requests'' (newRequest e uid deckId v)]"

section \<open>Runs in which the collaborators succeed\<close>

text \<open>Both identifiers pass the validation that opens \<open>geminiQuizService\<close>.\<close>

definition valid_ids :: "js_str \<Rightarrow> js_str \<Rightarrow> bool" where
  "valid_ids deckId uid =
     (\<not> falsy deckId \<and> typeof deckId = ''string'' \<and> \<not> falsy uid \<and> typeof uid = ''string'')"

text \<open>
  The deck has no watermark and no quiz, its flashcards are \<open>cards\<close>, generation
  answers the well-formed list \<open>qa\<close>, and every call of the CREATE path succeeds, up to
  the load of the quiz \<open>quizObject\<close> that opens the selection.
\<close>

definition create_succeeds ::
  "env \<Rightarrow> js_str \<Rightarrow> js_str \<Rightarrow> flashcard list \<Rightarrow> question list \<Rightarrow> string \<Rightarrow> quiz_object \<Rightarrow> bool" where
  "create_succeeds e deckId uid cards qa quizId quizObject =
     ((case getDeckAndCheckField e deckId ''made_to_quiz_at'' of
         Inr (Some di) \<Rightarrow> exists di \<and> \<not> field_exists di
       | _ \<Rightarrow> False) \<and>
      (case getQuizByDeckIDAndQuizType e deckId ''multiple-choice'' of
         Inr None \<Rightarrow> True
       | Inr (Some qs) \<Rightarrow> qs = []
       | _ \<Rightarrow> False) \<and>
      (case getDeckById e deckId of Inr d \<Rightarrow> flashcards d = Some cards | _ \<Rightarrow> False) \<and>
      cards \<noteq> [] \<and>
      writeFile e (quiz_tmp_file uid) (JSON_stringify cards) = Inr () \<and>
      (case sendPromptInline e quizSchema (quizPrompt (length cards)) (quiz_tmp_file uid) ''txt'' of
         Inr result \<Rightarrow> check_quiz_data result = Inr qa
       | _ \<Rightarrow> False) \<and>
      createQuizForDeck e (new_quiz_meta e deckId) = Inr quizId \<and>
      createQuestionAndAnswer e quizId qa = Inr () \<and>
      updateDeck e deckId (timeStamp e) = Inr () \<and>
      getQuizByID e quizId ''multiple-choice'' = Inr quizObject)"

text \<open>
  The deck has the quiz \<open>q\<close>, the flashcards newer than it are \<open>cards\<close> (at least
  one), generation answers the well-formed list \<open>qa\<close>, and every call of the extending
  RECONCILE path succeeds, up to the load of the quiz \<open>quizObject\<close>.
\<close>

definition extend_succeeds ::
  "env \<Rightarrow> js_str \<Rightarrow> js_str \<Rightarrow> quiz_doc \<Rightarrow> flashcard list \<Rightarrow> question list \<Rightarrow> quiz_object \<Rightarrow> bool" where
  "extend_succeeds e deckId uid q cards qa quizObject =
     ((case getDeckAndCheckField e deckId ''made_to_quiz_at'' of Inr deckInfo \<Rightarrow> True | _ \<Rightarrow> False) \<and>
      (case getQuizByDeckIDAndQuizType e deckId ''multiple-choice'' of
         Inr (Some (q' # qs)) \<Rightarrow> q' = q
       | _ \<Rightarrow> False) \<and>
      getNewFlashcards e deckId (Some (updated_at q)) = Inr cards \<and>
      cards \<noteq> [] \<and>
      writeFile e (quiz_tmp_file uid) (JSON_stringify cards) = Inr () \<and>
      (case sendPromptInline e quizSchema (quizPrompt (length cards)) (quiz_tmp_file uid) ''txt'' of
         Inr result \<Rightarrow> check_quiz_data result = Inr qa
       | _ \<Rightarrow> False) \<and>
      createQuestionAndAnswer e (doc_id q) qa = Inr () \<and>
      updateDeck e deckId (timeStamp e) = Inr () \<and>
      getQuizByID e (doc_id q) ''multiple-choice'' = Inr quizObject)"

text \<open>
  The deck has the quiz \<open>q\<close> and no flashcard newer than it, and the load of the quiz
  \<open>quizObject\<close> succeeds.
\<close>

definition reuse_succeeds :: "env \<Rightarrow> js_str \<Rightarrow> quiz_doc \<Rightarrow> quiz_object \<Rightarrow> bool" where
  "reuse_succeeds e deckId q quizObject =
     ((case getDeckAndCheckField e deckId ''made_to_quiz_at'' of Inr deckInfo \<Rightarrow> True | _ \<Rightarrow> False) \<and>
      (case getQuizByDeckIDAndQuizType e deckId ''multiple-choice'' of
         Inr (Some (q' # qs)) \<Rightarrow> q' = q
       | _ \<Rightarrow> False) \<and>
      getNewFlashcards e deckId (Some (updated_at q)) = Inr [] \<and>
      getQuizByID e (doc_id q) ''multiple-choice'' = Inr quizObject)"

section \<open>Properties of the moderation aggregator\<close>

lemma spec_step_appropriate:
  "is_appropriate (overall_verdict (response_data r)) \<Longrightarrow> spec_step acc r = acc"
  by (simp add: spec_step_def)

lemma spec_step_inappropriate:
  "\<not> is_appropriate (overall_verdict (response_data r)) \<Longrightarrow>
   spec_step \<lparr>is_appropriate = a, moderation_decision = d, flagged_cards = Some items\<rparr> r =
     \<lparr>is_appropriate = False,
      moderation_decision = moderation_decision (overall_verdict (response_data r)),
      flagged_cards = Some (items @ spec_flagged_items (overall_verdict (response_data r)))\<rparr>"
  by (simp add: spec_step_def spec_flagged_items_def Let_def)

lemma concat_guard:
  "(case flagged_cards v of Some (c # cs) \<Rightarrow> items @ (c # cs) | _ \<Rightarrow> items) =
   items @ spec_flagged_items v"
  by (simp add: spec_flagged_items_def split: option.splits list.splits)

lemma aggregate_loop_fold:
  "aggregate_loop (a, items, d) rs =
     (let v = foldl spec_step
                \<lparr>is_appropriate = a, moderation_decision = d, flagged_cards = Some items\<rparr> rs
      in (is_appropriate v, spec_flagged_items v, moderation_decision v))"
proof (induction rs arbitrary: a items d)
  case Nil
  show ?case by (simp add: spec_flagged_items_def)
next
  case (Cons r rs)
  show ?case
  proof (cases "is_appropriate (overall_verdict (response_data r))")
    case True
    then show ?thesis
      using Cons.IH [of a items d] by (simp add: spec_step_appropriate Let_def)
  next
    case False
    then show ?thesis
      using Cons.IH [of False "items @ spec_flagged_items (overall_verdict (response_data r))"
          "moderation_decision (overall_verdict (response_data r))"]
      by (simp add: spec_step_inappropriate concat_guard Let_def)
  qed
qed

lemma foldl_spec_step_array:
  "flagged_cards acc \<noteq> None \<Longrightarrow> flagged_cards (foldl spec_step acc rs) \<noteq> None"
  by (induction rs arbitrary: acc) (simp_all add: spec_step_def Let_def)

lemma foldl_spec_step_snoc:
  "foldl spec_step acc (rs @ [r]) = spec_step (foldl spec_step acc rs) r"
  by simp

lemma inappropriate_snoc:
  "inappropriate (rs @ [r]) =
     inappropriate rs @
     (if is_appropriate (overall_verdict (response_data r)) then []
      else [overall_verdict (response_data r)])"
  by (simp add: inappropriate_def)

lemma foldl_spec_step_closed:
  "flagged_cards acc \<noteq> None \<Longrightarrow>
   is_appropriate (foldl spec_step acc rs) = (is_appropriate acc \<and> inappropriate rs = []) \<and>
   moderation_decision (foldl spec_step acc rs) =
     (if inappropriate rs = [] then moderation_decision acc
      else moderation_decision (last (inappropriate rs))) \<and>
   spec_flagged_items (foldl spec_step acc rs) =
     spec_flagged_items acc @ concat (map spec_flagged_items (inappropriate rs))"
proof (induction rs rule: rev_induct)
  case Nil
  show ?case by (simp add: inappropriate_def)
next
  case (snoc r rs)
  show ?case
  proof (cases "is_appropriate (overall_verdict (response_data r))")
    case True
    then show ?thesis
      using snoc by (simp add: inappropriate_snoc spec_step_appropriate)
  next
    case False
    then show ?thesis
      using snoc
      by (simp add: inappropriate_snoc spec_step_def Let_def spec_flagged_items_def)
  qed
qed

lemma aggregate_eq_fold:
  "aggregateModerationResults rs = \<lparr>overall_verdict = foldl spec_step spec_initial rs\<rparr>"
proof -
  let ?v = "foldl spec_step spec_initial rs"
  have arr: "flagged_cards ?v \<noteq> None"
    by (rule foldl_spec_step_array) (simp add: spec_initial_def)
  then have items: "flagged_cards ?v = Some (spec_flagged_items ?v)"
    by (auto simp: spec_flagged_items_def)
  have "aggregate_loop (True, [], ''Content is appropriate'') rs =
          (is_appropriate ?v, spec_flagged_items ?v, moderation_decision ?v)"
    using aggregate_loop_fold [of True "[]" "''Content is appropriate''" rs]
    by (simp add: spec_initial_def Let_def)
  then show ?thesis
    using items by (simp add: aggregateModerationResults_def)
qed

text \<open>
  Claim C6. For every sequence of per-batch moderation responses (of any length, the
  empty one included) \<open>aggregateModerationResults\<close> equals the reference fold of the
  specification. Zero responses give the initial default. In general the result is
  appropriate exactly when no response is inappropriate; its decision is the initial
  text when there is none and otherwise the decision of the last inappropriate
  response; and \<open>flagged_cards\<close> is always an array: the flagged items of the
  inappropriate responses, in order, a missing, malformed or empty list adding nothing.
  Appropriate responses do not occur in any of the three.
\<close>

theorem aggregateModerationResults_reference_fold:
  "aggregateModerationResults rs = spec_aggregate rs \<and>
   aggregateModerationResults [] = \<lparr>overall_verdict = spec_initial\<rparr> \<and>
   is_appropriate (overall_verdict (aggregateModerationResults rs)) = (inappropriate rs = []) \<and>
   moderation_decision (overall_verdict (aggregateModerationResults rs)) =
     (if inappropriate rs = [] then ''Content is appropriate''
      else moderation_decision (last (inappropriate rs))) \<and>
   flagged_cards (overall_verdict (aggregateModerationResults rs)) =
     Some (concat (map spec_flagged_items (inappropriate rs)))"
proof -
  let ?v = "foldl spec_step spec_initial rs"
  have arr0: "flagged_cards spec_initial \<noteq> None"
    by (simp add: spec_initial_def)
  have closed:
    "is_appropriate ?v = (inappropriate rs = [])"
    "moderation_decision ?v =
       (if inappropriate rs = [] then ''Content is appropriate''
        else moderation_decision (last (inappropriate rs)))"
    "spec_flagged_items ?v = concat (map spec_flagged_items (inappropriate rs))"
    using foldl_spec_step_closed [OF arr0, of rs]
    by (simp_all add: spec_initial_def spec_flagged_items_def)
  have "flagged_cards ?v \<noteq> None"
    by (rule foldl_spec_step_array [OF arr0])
  then have items: "flagged_cards ?v = Some (spec_flagged_items ?v)"
    by (auto simp: spec_flagged_items_def)
  have empty: "aggregateModerationResults [] = \<lparr>overall_verdict = spec_initial\<rparr>"
    using aggregate_eq_fold [of "[]"] by simp
  show ?thesis
    using closed items empty
    by (simp add: aggregate_eq_fold spec_aggregate_def)
qed

section \<open>Properties of the publish request\<close>

text \<open>
  Claim C10. The document that \<open>createPublishRequest\<close> adds to the collection
  \<open>publish_requests\<close> is \<open>newRequest\<close>, and it carries a \<open>published_at\<close> field
  from its creation on: the field is never absent and holds the same timestamp value
  as \<open>requested_at\<close>, although the document is created with status
  \<open>FOR_APPROVAL\<close> and moderator verdict \<open>PENDING\<close>.
\<close>

theorem newRequest_published_at_creation:
  "snd (createPublishRequest e userID deckID aiVerdict tr) =
     tr @ [DbAdd ''publish_requests'' (newRequest e userID deckID aiVerdict)] \<and>
   map_of (newRequest e userID deckID aiVerdict) ''published_at'' = Some (FTime (timeStamp e)) \<and>
   map_of (newRequest e userID deckID aiVerdict) ''published_at'' =
     map_of (newRequest e userID deckID aiVerdict) ''requested_at'' \<and>
   map_of (newRequest e userID deckID aiVerdict) ''status'' = Some (FStr ''FOR_APPROVAL'') \<and>
   map_of (newRequest e userID deckID aiVerdict) ''mod_verdict'' = Some (FStr ''PENDING'')"
  by (simp add: newRequest_def createPublishRequest_def io_call_def)

section \<open>Properties of shuffle and selection\<close>

lemma length_fischerYates_loop:
  "length (fischerYates_loop rnd i xs) = length xs"
  by (induction i arbitrary: xs) (simp_all add: Let_def)

lemma length_fischerYatesShuffle:
  "length (fischerYatesShuffle rnd xs) = length xs"
  by (simp add: fischerYatesShuffle_def length_fischerYates_loop)

lemma mset_fischerYates_loop:
  "i < length xs \<Longrightarrow> mset (fischerYates_loop rnd i xs) = mset xs"
proof (induction i arbitrary: xs)
  case 0
  show ?case by simp
next
  case (Suc i)
  let ?j = "rnd (Suc i) mod (Suc i + 1)"
  have "?j < Suc (Suc i)" by simp
  then have j: "?j < length xs" using Suc.prems by linarith
  have "mset (xs[Suc i := xs ! ?j, ?j := xs ! Suc i]) = mset xs"
    using mset_swap [OF j Suc.prems] .
  moreover have "i < length (xs[Suc i := xs ! ?j, ?j := xs ! Suc i])"
    using Suc.prems by simp
  ultimately show ?case
    using Suc.IH [of "xs[Suc i := xs ! ?j, ?j := xs ! Suc i]"] by (simp add: Let_def)
qed

lemma mset_fischerYatesShuffle:
  "mset (fischerYatesShuffle rnd xs) = mset xs"
proof (cases xs)
  case Nil
  then show ?thesis by (simp add: fischerYatesShuffle_def)
next
  case (Cons a as)
  then show ?thesis
    by (simp add: fischerYatesShuffle_def mset_fischerYates_loop)
qed

lemma ceil_half_ceiling: "ceil_half n = \<lceil>real n * 0.5\<rceil>"
  unfolding ceil_half_def by linarith

lemma select_default:
  "select s None = Inr (take (nat (ceil_half (length s))) s)"
  by (simp add: select_def slice0_def ceil_half_def Let_def min_def)

lemma select_exceeds:
  "int (length s) < n \<Longrightarrow> select s (Some n) = Inl exceeds_error"
  by (simp add: select_def)

lemma select_prefix:
  "0 \<le> n \<Longrightarrow> n \<le> int (length s) \<Longrightarrow> select s (Some n) = Inr (take (nat n) s)"
  by (simp add: select_def slice0_def Let_def min_def)

text \<open>
  Every count that the controller passes to the service is between 5 and 50. A negative
  count, which it never passes on, would count from the end of the shuffled list, as
  \<open>slice\<close> does.
\<close>

lemma controller_count_range:
  "geminiQuizController_limit numOfQuiz_truthy parsed = Inr (Some n) \<Longrightarrow> 5 \<le> n \<and> n \<le> 50"
  by (auto simp: geminiQuizController_limit_def Let_def split: if_splits js_number.splits)

lemma select_negative:
  "n < 0 \<Longrightarrow> select s (Some n) = Inr (take (nat (int (length s) + n)) s)"
  by (simp add: select_def slice0_def Let_def max_def)

lemma select_tail_exceeds:
  "int (length (questions quizObject)) < n \<Longrightarrow>
   select_tail rnd (Some n) quizObject = Inl exceeds_error"
  by (simp add: select_tail_def select_exceeds length_fischerYatesShuffle)

lemma select_tail_error:
  "select_tail rnd numOfQuiz quizObject = Inl error \<Longrightarrow> error = exceeds_error"
  by (auto simp: select_tail_def select_def Let_def split: if_splits sum.splits)

lemma quiz_catch_exceeds:
  "quiz_catch exceeds_error = (500, None, ''A server-side error has occurred'')"
  by (simp add: quiz_catch_def exceeds_error_def)

section \<open>The runs of the quiz service\<close>

lemmas io_defs = io_return_def io_throw_def io_lift_def io_call_def io_bind_def io_catch_def

lemma quiz_reuse_run:
  assumes "\<not> falsy deckId" "typeof deckId = ''string''" "\<not> falsy uid" "typeof uid = ''string''"
    and "getDeckAndCheckField e deckId ''made_to_quiz_at'' = Inr deckInfo"
    and "getQuizByDeckIDAndQuizType e deckId ''multiple-choice'' = Inr (Some (q # qs))"
    and "getNewFlashcards e deckId (Some (updated_at q)) = Inr []"
  shows "geminiQuizService e deckId uid numOfQuiz =
           ((case getQuizByID e (doc_id q) ''multiple-choice'' of
               Inl error \<Rightarrow> respond uid (quiz_catch error)
             | Inr quizObject \<Rightarrow>
                 select_response e uid numOfQuiz quizObject
                   ''There is already a quiz made for this deck in the 'quiz' collection''),
            reuse_calls deckId q)"
proof -
  have b: "branch deckInfo (Some (q # qs)) = RECONCILE"
    by (simp add: branch_def)
  show ?thesis
    using assms b
    by (simp add: geminiQuizService_def geminiQuizService_try_def reconcile_path_def io_defs
        select_response_def reuse_calls_def lookups_def split: sum.splits)
qed

lemma quiz_extend_run:
  assumes "\<not> falsy deckId" "typeof deckId = ''string''" "\<not> falsy uid" "typeof uid = ''string''"
    and "getDeckAndCheckField e deckId ''made_to_quiz_at'' = Inr deckInfo"
    and "getQuizByDeckIDAndQuizType e deckId ''multiple-choice'' = Inr (Some (q # qs))"
    and "getNewFlashcards e deckId (Some (updated_at q)) = Inr (c # cs)"
    and "writeFile e (quiz_tmp_file uid) (JSON_stringify (c # cs)) = Inr ()"
    and "sendPromptInline e quizSchema (quizPrompt (length (c # cs))) (quiz_tmp_file uid) ''txt'' =
           Inr result"
    and "check_quiz_data result = Inr qa"
    and "createQuestionAndAnswer e (doc_id q) qa = Inr ()"
    and "updateDeck e deckId (timeStamp e) = Inr ()"
    and "getQuizByID e (doc_id q) ''multiple-choice'' = Inr quizObject"
  shows "geminiQuizService e deckId uid numOfQuiz =
           (select_response e uid numOfQuiz quizObject
              (''Quiz creation for new flashcards in deck '' @ template deckId @ '' is successful''),
            extend_calls e deckId uid q (c # cs) qa)"
proof -
  have b: "branch deckInfo (Some (q # qs)) = RECONCILE"
    by (simp add: branch_def)
  show ?thesis
    using assms b
    by (simp add: geminiQuizService_def geminiQuizService_try_def reconcile_path_def io_defs Let_def
        select_response_def extend_calls_def lookups_def split: sum.splits)
qed

lemma quiz_create_run:
  assumes "\<not> falsy deckId" "typeof deckId = ''string''" "\<not> falsy uid" "typeof uid = ''string''"
    and "getDeckAndCheckField e deckId ''made_to_quiz_at'' = Inr (Some di)"
    and "exists di" "\<not> field_exists di"
    and "getQuizByDeckIDAndQuizType e deckId ''multiple-choice'' = Inr quizzes"
    and "quizzes = None \<or> quizzes = Some []"
    and "getDeckById e deckId = Inr d" "flashcards d = Some (c # cs)"
    and "writeFile e (quiz_tmp_file uid) (JSON_stringify (c # cs)) = Inr ()"
    and "sendPromptInline e quizSchema (quizPrompt (length (c # cs))) (quiz_tmp_file uid) ''txt'' =
           Inr result"
    and "check_quiz_data result = Inr qa"
    and "createQuizForDeck e (new_quiz_meta e deckId) = Inr quizId"
    and "createQuestionAndAnswer e quizId qa = Inr ()"
    and "updateDeck e deckId (timeStamp e) = Inr ()"
    and "getQuizByID e quizId ''multiple-choice'' = Inr quizObject"
  shows "geminiQuizService e deckId uid numOfQuiz =
           (select_response e uid numOfQuiz quizObject
              (''Quiz creation for deck with id:'' @ template deckId @ '' is successful''),
            create_calls e deckId uid (c # cs) qa quizId)"
proof -
  have b: "branch (Some di) quizzes = CREATE"
    using assms(6,7,9) by (auto simp: branch_def)
  show ?thesis
    using assms(1-5,8,10-) b
    by (simp add: geminiQuizService_def geminiQuizService_try_def create_path_def io_defs Let_def
        select_response_def create_calls_def lookups_def split: sum.splits)
qed

lemma quiz_no_path_run:
  assumes "\<not> falsy deckId" "typeof deckId = ''string''" "\<not> falsy uid" "typeof uid = ''string''"
    and "getDeckAndCheckField e deckId ''made_to_quiz_at'' = Inr deckInfo"
    and "getQuizByDeckIDAndQuizType e deckId ''multiple-choice'' = Inr quizzes"
    and "branch deckInfo quizzes = NO_PATH"
  shows "geminiQuizService e deckId uid numOfQuiz =
           (\<lparr>status = 400, request_owner_id = uid, message = unsuccessful_message deckId,
             data = None\<rparr>,
            lookups deckId)"
  using assms
  by (simp add: geminiQuizService_def geminiQuizService_try_def io_defs respond_def lookups_def)

lemma select_response_exceeds:
  "select_tail (draw e) numOfQuiz quizObject = Inl exceeds_error \<Longrightarrow>
   select_response e uid numOfQuiz quizObject msg =
     \<lparr>status = 500, request_owner_id = uid, message = ''A server-side error has occurred'',
      data = None\<rparr>"
  by (simp add: select_response_def quiz_catch_exceeds respond_def)

lemma create_succeeds_run:
  assumes "valid_ids deckId uid" "create_succeeds e deckId uid cards qa quizId quizObject"
  shows "geminiQuizService e deckId uid numOfQuiz =
           (select_response e uid numOfQuiz quizObject
              (''Quiz creation for deck with id:'' @ template deckId @ '' is successful''),
            create_calls e deckId uid cards qa quizId)"
proof -
  obtain c cs where cards: "cards = c # cs"
    using assms(2) by (cases cards) (auto simp: create_succeeds_def)
  obtain di where di: "getDeckAndCheckField e deckId ''made_to_quiz_at'' = Inr (Some di)"
      "exists di" "\<not> field_exists di"
    using assms(2) by (auto simp: create_succeeds_def split: sum.splits option.splits)
  obtain quizzes where qz: "getQuizByDeckIDAndQuizType e deckId ''multiple-choice'' = Inr quizzes"
      "quizzes = None \<or> quizzes = Some []"
    using assms(2) by (auto simp: create_succeeds_def split: sum.splits option.splits)
  obtain d where d: "getDeckById e deckId = Inr d" "flashcards d = Some (c # cs)"
    using assms(2) cards by (auto simp: create_succeeds_def split: sum.splits)
  obtain result where r:
      "sendPromptInline e quizSchema (quizPrompt (length (c # cs))) (quiz_tmp_file uid) ''txt'' =
         Inr result"
      "check_quiz_data result = Inr qa"
    using assms(2) cards by (auto simp: create_succeeds_def split: sum.splits)
  have rest: "writeFile e (quiz_tmp_file uid) (JSON_stringify (c # cs)) = Inr ()"
      "createQuizForDeck e (new_quiz_meta e deckId) = Inr quizId"
      "createQuestionAndAnswer e quizId qa = Inr ()"
      "updateDeck e deckId (timeStamp e) = Inr ()"
      "getQuizByID e quizId ''multiple-choice'' = Inr quizObject"
    using assms(2) cards by (simp_all add: create_succeeds_def)
  have v: "\<not> falsy deckId" "typeof deckId = ''string''" "\<not> falsy uid" "typeof uid = ''string''"
    using assms(1) by (simp_all add: valid_ids_def)
  show ?thesis
    unfolding cards
    by (rule quiz_create_run [OF v di(1) di(2) di(3) qz(1) qz(2) d(1) d(2) rest(1) r(1) r(2)
          rest(2) rest(3) rest(4) rest(5)])
qed

lemma extend_succeeds_run:
  assumes "valid_ids deckId uid" "extend_succeeds e deckId uid q cards qa quizObject"
  shows "geminiQuizService e deckId uid numOfQuiz =
           (select_response e uid numOfQuiz quizObject
              (''Quiz creation for new flashcards in deck '' @ template deckId @ '' is successful''),
            extend_calls e deckId uid q cards qa)"
proof -
  obtain c cs where cards: "cards = c # cs"
    using assms(2) by (cases cards) (auto simp: extend_succeeds_def)
  obtain deckInfo where di: "getDeckAndCheckField e deckId ''made_to_quiz_at'' = Inr deckInfo"
    using assms(2) by (auto simp: extend_succeeds_def split: sum.splits)
  obtain qs where qz: "getQuizByDeckIDAndQuizType e deckId ''multiple-choice'' = Inr (Some (q # qs))"
    using assms(2) by (auto simp: extend_succeeds_def split: sum.splits option.splits list.splits)
  obtain result where r:
      "sendPromptInline e quizSchema (quizPrompt (length (c # cs))) (quiz_tmp_file uid) ''txt'' =
         Inr result"
      "check_quiz_data result = Inr qa"
    using assms(2) cards by (auto simp: extend_succeeds_def split: sum.splits)
  have rest: "getNewFlashcards e deckId (Some (updated_at q)) = Inr (c # cs)"
      "writeFile e (quiz_tmp_file uid) (JSON_stringify (c # cs)) = Inr ()"
      "createQuestionAndAnswer e (doc_id q) qa = Inr ()"
      "updateDeck e deckId (timeStamp e) = Inr ()"
      "getQuizByID e (doc_id q) ''multiple-choice'' = Inr quizObject"
    using assms(2) cards by (simp_all add: extend_succeeds_def)
  have v: "\<not> falsy deckId" "typeof deckId = ''string''" "\<not> falsy uid" "typeof uid = ''string''"
    using assms(1) by (simp_all add: valid_ids_def)
  show ?thesis
    unfolding cards
    by (rule quiz_extend_run [OF v di qz rest(1) rest(2) r(1) r(2) rest(3) rest(4) rest(5)])
qed

lemma store_after_create_calls:
  "stored_questions (store_after (create_calls e deckId uid cards qa quizId) st) quizId =
     stored_questions st quizId @ qa \<and>
   made_to_quiz_at (store_after (create_calls e deckId uid cards qa quizId) st) deckId =
     Some (timeStamp e)"
  by (simp add: store_after_def create_calls_def lookups_def)

lemma store_after_extend_calls:
  "stored_questions (store_after (extend_calls e deckId uid q cards qa) st) (doc_id q) =
     stored_questions st (doc_id q) @ qa \<and>
   made_to_quiz_at (store_after (extend_calls e deckId uid q cards qa) st) deckId =
     Some (timeStamp e)"
  by (simp add: store_after_def extend_calls_def lookups_def)

section \<open>Mutations come before the count check\<close>

lemma valid_ids_example: "valid_ids deck1 user1"
  by (simp add: valid_ids_def deck1_def user1_def)

lemma create_env_succeeds:
  "create_succeeds create_env deck1 user1 [example_card ''a'', example_card ''b'']
     [example_question ''a'', example_question ''b''] ''quiz1''
     (example_quiz [example_question ''a'', example_question ''b''])"
  by (simp add: create_succeeds_def create_env_def example_env_def check_quiz_data_def
      example_result_def)

lemma extend_env_succeeds:
  "extend_succeeds extend_env deck1 user1 example_doc [example_card ''c'']
     [example_question ''c'']
     (example_quiz [example_question ''a'', example_question ''b'', example_question ''c''])"
  by (simp add: extend_succeeds_def extend_env_def example_env_def check_quiz_data_def
      example_result_def example_doc_def)

text \<open>
  Claim C4. In every run of the CREATE path or of the extending RECONCILE path in which
  the count check fails, the failure is the \<open>EXCEEDS_AVAILABLE_CARDS\<close> error of the
  selection, and by then the persistence calls have been made, in this order and with
  nothing after them but the load of the quiz that opens the selection: the creation of
  the quiz (CREATE only), the append of the generated questions and the update of the
  watermark. No call undoes them: after the run the store holds the appended questions
  and the new watermark, although the response is an error.
\<close>

theorem count_check_after_mutations:
  assumes "valid_ids deckId uid"
    and "select_tail (draw e) numOfQuiz quizObject = Inl error"
  shows "error = exceeds_error \<and>
    (create_succeeds e deckId uid cards qa quizId quizObject \<longrightarrow>
       geminiQuizService e deckId uid numOfQuiz =
         (\<lparr>status = 500, request_owner_id = uid,
           message = ''A server-side error has occurred'', data = None\<rparr>,
          create_calls e deckId uid cards qa quizId) \<and>
       stored_questions (store_after (snd (geminiQuizService e deckId uid numOfQuiz)) st) quizId =
         stored_questions st quizId @ qa \<and>
       made_to_quiz_at (store_after (snd (geminiQuizService e deckId uid numOfQuiz)) st) deckId =
         Some (timeStamp e)) \<and>
    (extend_succeeds e deckId uid q newCards newQa quizObject \<longrightarrow>
       geminiQuizService e deckId uid numOfQuiz =
         (\<lparr>status = 500, request_owner_id = uid,
           message = ''A server-side error has occurred'', data = None\<rparr>,
          extend_calls e deckId uid q newCards newQa) \<and>
       stored_questions (store_after (snd (geminiQuizService e deckId uid numOfQuiz)) st) (doc_id q) =
         stored_questions st (doc_id q) @ newQa \<and>
       made_to_quiz_at (store_after (snd (geminiQuizService e deckId uid numOfQuiz)) st) deckId =
         Some (timeStamp e))"
proof -
  have err: "error = exceeds_error"
    using assms(2) by (rule select_tail_error)
  then have sel: "select_tail (draw e) numOfQuiz quizObject = Inl exceeds_error"
    using assms(2) by simp
  show ?thesis
    using err create_succeeds_run [OF assms(1), of e cards qa quizId quizObject numOfQuiz]
      extend_succeeds_run [OF assms(1), of e q newCards newQa quizObject numOfQuiz]
      select_response_exceeds [OF sel]
      store_after_create_calls [of e deckId uid cards qa quizId st]
      store_after_extend_calls [of e deckId uid q newCards newQa st]
    by simp
qed

theorem count_check_after_mutations_witness:
  "valid_ids deck1 user1 \<and>
   select_tail (draw create_env) (Some 5)
     (example_quiz [example_question ''a'', example_question ''b'']) = Inl exceeds_error \<and>
   create_succeeds create_env deck1 user1 [example_card ''a'', example_card ''b'']
     [example_question ''a'', example_question ''b''] ''quiz1''
     (example_quiz [example_question ''a'', example_question ''b'']) \<and>
   geminiQuizService create_env deck1 user1 (Some 5) =
     (\<lparr>status = 500, request_owner_id = user1,
       message = ''A server-side error has occurred'', data = None\<rparr>,
      create_calls create_env deck1 user1 [example_card ''a'', example_card ''b'']
        [example_question ''a'', example_question ''b''] ''quiz1'') \<and>
   select_tail (draw extend_env) (Some 5)
     (example_quiz [example_question ''a'', example_question ''b'', example_question ''c'']) =
     Inl exceeds_error \<and>
   extend_succeeds extend_env deck1 user1 example_doc [example_card ''c'']
     [example_question ''c'']
     (example_quiz [example_question ''a'', example_question ''b'', example_question ''c'']) \<and>
   geminiQuizService extend_env deck1 user1 (Some 5) =
     (\<lparr>status = 500, request_owner_id = user1,
       message = ''A server-side error has occurred'', data = None\<rparr>,
      extend_calls extend_env deck1 user1 example_doc [example_card ''c'']
        [example_question ''c''])"
proof -
  have s1: "select_tail (draw create_env) (Some 5)
      (example_quiz [example_question ''a'', example_question ''b'']) = Inl exceeds_error"
    by (rule select_tail_exceeds) (simp add: example_quiz_def)
  have s2: "select_tail (draw extend_env) (Some 5)
      (example_quiz [example_question ''a'', example_question ''b'', example_question ''c'']) =
      Inl exceeds_error"
    by (rule select_tail_exceeds) (simp add: example_quiz_def)
  show ?thesis
    using valid_ids_example s1 s2 create_env_succeeds extend_env_succeeds
      count_check_after_mutations [OF valid_ids_example s1,
        where cards = "[example_card ''a'', example_card ''b'']"
          and qa = "[example_question ''a'', example_question ''b'']" and quizId = "''quiz1''"]
      count_check_after_mutations [OF valid_ids_example s2,
        where q = example_doc and newCards = "[example_card ''c'']"
          and newQa = "[example_question ''c'']"]
    by simp
qed

section \<open>A watermark without a quiz\<close>

text \<open>
  Claim C3, as the code has it. For every deck whose \<open>made_to_quiz_at\<close> field is
  present but for which no multiple-choice quiz exists, the service takes neither
  branch: after the two lookups it calls no collaborator (no generation, no write, no
  search for new flashcards) and answers with status 400, no data and the message that
  the quiz creation is unsuccessful.
\<close>

theorem no_path_when_watermark_without_quiz:
  assumes "valid_ids deckId uid"
    and "getDeckAndCheckField e deckId ''made_to_quiz_at'' = Inr (Some di)"
    and "field_exists di"
    and "getQuizByDeckIDAndQuizType e deckId ''multiple-choice'' = Inr quizzes"
    and "quizzes = None \<or> quizzes = Some []"
  shows "branch (Some di) quizzes = NO_PATH \<and>
         geminiQuizService e deckId uid numOfQuiz =
           (\<lparr>status = 400, request_owner_id = uid, message = unsuccessful_message deckId,
             data = None\<rparr>,
            lookups deckId)"
proof -
  have b: "branch (Some di) quizzes = NO_PATH"
    using assms(3,5) by (auto simp: branch_def)
  have v: "\<not> falsy deckId" "typeof deckId = ''string''" "\<not> falsy uid" "typeof uid = ''string''"
    using assms(1) by (simp_all add: valid_ids_def)
  show ?thesis
    using b quiz_no_path_run [OF v assms(2) assms(4) b] by simp
qed

theorem no_path_when_watermark_without_quiz_witness:
  "valid_ids deck1 user1 \<and>
   getDeckAndCheckField inconsistent_env deck1 ''made_to_quiz_at'' =
     Inr (Some \<lparr>exists = True, field_exists = True\<rparr>) \<and>
   getQuizByDeckIDAndQuizType inconsistent_env deck1 ''multiple-choice'' = Inr (Some []) \<and>
   branch (Some \<lparr>exists = True, field_exists = True\<rparr>) (Some []) = NO_PATH \<and>
   geminiQuizService inconsistent_env deck1 user1 None =
     (\<lparr>status = 400, request_owner_id = user1,
       message = ''Quiz creation for deck with id:deck1 is unsuccessful'', data = None\<rparr>,
      [GetDeckAndCheckField deck1 ''made_to_quiz_at'',
       GetQuizByDeckIDAndQuizType deck1 ''multiple-choice''])"
proof -
  have a: "getDeckAndCheckField inconsistent_env deck1 ''made_to_quiz_at'' =
      Inr (Some \<lparr>exists = True, field_exists = True\<rparr>)"
    by (simp add: inconsistent_env_def example_env_def)
  have b: "getQuizByDeckIDAndQuizType inconsistent_env deck1 ''multiple-choice'' = Inr (Some [])"
    by (simp add: inconsistent_env_def example_env_def)
  have m: "unsuccessful_message deck1 = ''Quiz creation for deck with id:deck1 is unsuccessful''"
    by (simp add: unsuccessful_message_def deck1_def)
  show ?thesis
    using valid_ids_example a b
      no_path_when_watermark_without_quiz [OF valid_ids_example a _ b, of None]
    by (simp add: m lookups_def)
qed

text \<open>
  The deck \<open>inconsistent_env\<close> has the watermark and no quiz. The branch taken is not
  RECONCILE: \<open>getNewFlashcards\<close>, the first call of that branch, is never made.
\<close>

theorem watermark_without_quiz_not_reconciled:
  "branch (Some \<lparr>exists = True, field_exists = True\<rparr>) (Some []) \<noteq> RECONCILE \<and>
   snd (geminiQuizService inconsistent_env deck1 user1 None) =
     [GetDeckAndCheckField deck1 ''made_to_quiz_at'',
      GetQuizByDeckIDAndQuizType deck1 ''multiple-choice''] \<and>
   status (fst (geminiQuizService inconsistent_env deck1 user1 None)) = 400 \<and>
   data (fst (geminiQuizService inconsistent_env deck1 user1 None)) = None"
proof -
  have b: "branch (Some \<lparr>exists = True, field_exists = True\<rparr>) (Some []) = NO_PATH"
    by (simp add: branch_def)
  have v: "\<not> falsy deck1" "typeof deck1 = ''string''" "\<not> falsy user1" "typeof user1 = ''string''"
    by (simp_all add: deck1_def user1_def)
  have "geminiQuizService inconsistent_env deck1 user1 None =
          (\<lparr>status = 400, request_owner_id = user1, message = unsuccessful_message deck1,
            data = None\<rparr>,
           lookups deck1)"
    by (rule quiz_no_path_run [OF v _ _ b]) (simp_all add: inconsistent_env_def example_env_def)
  then show ?thesis
    using b by (simp add: lookups_def)
qed

section \<open>The deck has a quiz and no newer flashcard\<close>

lemma store_after_reuse_calls:
  "store_after (reuse_calls deckId q @ reuse_calls deckId q) st = st \<and>
   store_after (reuse_calls deckId q) st = st"
  by (simp add: store_after_def reuse_calls_def lookups_def)

lemma reuse_calls_reads:
  "filter is_write (reuse_calls deckId q) = [] \<and> filter is_generation (reuse_calls deckId q) = []"
  by (simp add: reuse_calls_def lookups_def)

lemma shuffle_eight:
  "fischerYatesShuffle (\<lambda>i. 0) [a1, a2, a3, a4, a5, a6, a7, a8] =
   [a2, a3, a4, a5, a6, a7, a8, a1]"
  by (simp add: fischerYatesShuffle_def Let_def)

lemma take_five:
  "select [a2, a3, a4, a5, a6, a7, a8, a1] (Some 5) = Inr [a2, a3, a4, a5, a6]"
  using select_prefix [of 5 "[a2, a3, a4, a5, a6, a7, a8, a1]"]
  by (simp add: eval_nat_numeral)

lemma reuse_example_selected:
  "select (fischerYatesShuffle (draw reuse_env) (questions (example_quiz (map example_question
        [''q1'', ''q2'', ''q3'', ''q4'', ''q5'', ''q6'', ''q7'', ''q8''])))) (Some 5) =
   Inr (map example_question [''q2'', ''q3'', ''q4'', ''q5'', ''q6''])"
proof -
  have d: "draw reuse_env = (\<lambda>i. 0)"
    by (simp add: reuse_env_def example_env_def)
  show ?thesis
    unfolding d by (simp add: example_quiz_def shuffle_eight take_five)
qed

text \<open>
  Claim C7. For every deck that already has a quiz and has no flashcard newer than the
  quiz's last update, the run makes four calls, all of them reads: the two lookups, the
  search for newer flashcards and the load of the quiz. It makes no write and does not
  call generation, so the persisted state after the run is the state before it, and so
  it is after a second run (whose shuffle may differ): the persisted quiz is the same,
  with no question added. The selection shortens only the question list of the quiz
  object in the response.
\<close>

theorem reuse_is_pure_read:
  assumes "valid_ids deckId uid"
    and "getDeckAndCheckField e deckId ''made_to_quiz_at'' = Inr deckInfo"
    and "getQuizByDeckIDAndQuizType e deckId ''multiple-choice'' = Inr (Some (q # qs))"
    and "getNewFlashcards e deckId (Some (updated_at q)) = Inr []"
  shows "snd (geminiQuizService e deckId uid numOfQuiz) = reuse_calls deckId q \<and>
    filter is_write (snd (geminiQuizService e deckId uid numOfQuiz)) = [] \<and>
    filter is_generation (snd (geminiQuizService e deckId uid numOfQuiz)) = [] \<and>
    store_after (snd (geminiQuizService e deckId uid numOfQuiz)) st = st \<and>
    store_after
      (snd (geminiQuizService e deckId uid numOfQuiz) @
       snd (geminiQuizService (e\<lparr>draw := rnd\<rparr>) deckId uid numOfQuiz2)) st = st \<and>
    (getQuizByID e (doc_id q) ''multiple-choice'' = Inr quizObject \<and>
     select (fischerYatesShuffle (draw e) (questions quizObject)) numOfQuiz = Inr selected \<longrightarrow>
       fst (geminiQuizService e deckId uid numOfQuiz) =
         \<lparr>status = 200, request_owner_id = uid,
          message = ''There is already a quiz made for this deck in the 'quiz' collection'',
          data = Some \<lparr>quizContent = quizObject\<lparr>questions := selected\<rparr>\<rparr>\<rparr>)"
proof -
  have v: "\<not> falsy deckId" "typeof deckId = ''string''" "\<not> falsy uid" "typeof uid = ''string''"
    using assms(1) by (simp_all add: valid_ids_def)
  have run1: "geminiQuizService e deckId uid numOfQuiz =
      ((case getQuizByID e (doc_id q) ''multiple-choice'' of
          Inl error \<Rightarrow> respond uid (quiz_catch error)
        | Inr quizObject \<Rightarrow>
            select_response e uid numOfQuiz quizObject
              ''There is already a quiz made for this deck in the 'quiz' collection''),
       reuse_calls deckId q)"
    by (rule quiz_reuse_run [OF v assms(2) assms(3) assms(4)])
  have run2: "snd (geminiQuizService (e\<lparr>draw := rnd\<rparr>) deckId uid numOfQuiz2) =
      reuse_calls deckId q"
    using quiz_reuse_run [OF v, of "e\<lparr>draw := rnd\<rparr>" deckInfo q qs numOfQuiz2] assms(2-4)
    by simp
  have resp: "fst (geminiQuizService e deckId uid numOfQuiz) =
         \<lparr>status = 200, request_owner_id = uid,
          message = ''There is already a quiz made for this deck in the 'quiz' collection'',
          data = Some \<lparr>quizContent = quizObject\<lparr>questions := selected\<rparr>\<rparr>\<rparr>"
    if "getQuizByID e (doc_id q) ''multiple-choice'' = Inr quizObject"
      and "select (fischerYatesShuffle (draw e) (questions quizObject)) numOfQuiz = Inr selected"
    using that run1 by (simp add: select_response_def select_tail_def respond_def)
  show ?thesis
    using run1 run2 resp store_after_reuse_calls [of deckId q st] reuse_calls_reads [of deckId q]
    by simp
qed

theorem reuse_is_pure_read_witness:
  "valid_ids deck1 user1 \<and>
   getDeckAndCheckField reuse_env deck1 ''made_to_quiz_at'' =
     Inr (Some \<lparr>exists = True, field_exists = True\<rparr>) \<and>
   getQuizByDeckIDAndQuizType reuse_env deck1 ''multiple-choice'' = Inr (Some [example_doc]) \<and>
   getNewFlashcards reuse_env deck1 (Some (updated_at example_doc)) = Inr [] \<and>
   snd (geminiQuizService reuse_env deck1 user1 (Some 5)) =
     [GetDeckAndCheckField deck1 ''made_to_quiz_at'',
      GetQuizByDeckIDAndQuizType deck1 ''multiple-choice'',
      GetNewFlashcards deck1 (Some 100),
      GetQuizByID ''quiz1'' ''multiple-choice''] \<and>
   fst (geminiQuizService reuse_env deck1 user1 (Some 5)) =
     \<lparr>status = 200, request_owner_id = user1,
      message = ''There is already a quiz made for this deck in the 'quiz' collection'',
      data = Some \<lparr>quizContent =
        example_quiz (map example_question [''q2'', ''q3'', ''q4'', ''q5'', ''q6''])\<rparr>\<rparr>"
proof -
  let ?quiz = "example_quiz (map example_question
        [''q1'', ''q2'', ''q3'', ''q4'', ''q5'', ''q6'', ''q7'', ''q8''])"
  have a: "getDeckAndCheckField reuse_env deck1 ''made_to_quiz_at'' =
      Inr (Some \<lparr>exists = True, field_exists = True\<rparr>)"
    by (simp add: reuse_env_def example_env_def)
  have b: "getQuizByDeckIDAndQuizType reuse_env deck1 ''multiple-choice'' = Inr (Some [example_doc])"
    by (simp add: reuse_env_def example_env_def)
  have c: "getNewFlashcards reuse_env deck1 (Some (updated_at example_doc)) = Inr []"
    by (simp add: reuse_env_def example_env_def)
  have d: "getQuizByID reuse_env (doc_id example_doc) ''multiple-choice'' = Inr ?quiz"
    by (simp add: reuse_env_def example_env_def)
  have u: "?quiz\<lparr>questions := map example_question [''q2'', ''q3'', ''q4'', ''q5'', ''q6'']\<rparr> =
      example_quiz (map example_question [''q2'', ''q3'', ''q4'', ''q5'', ''q6''])"
    by (simp add: example_quiz_def)
  note run = reuse_is_pure_read [OF valid_ids_example a b c,
        where numOfQuiz = "Some 5" and quizObject = ?quiz
          and selected = "map example_question [''q2'', ''q3'', ''q4'', ''q5'', ''q6'']"]
  have calls: "snd (geminiQuizService reuse_env deck1 user1 (Some 5)) = reuse_calls deck1 example_doc"
    using run by blast
  have "fst (geminiQuizService reuse_env deck1 user1 (Some 5)) =
     \<lparr>status = 200, request_owner_id = user1,
      message = ''There is already a quiz made for this deck in the 'quiz' collection'',
      data = Some \<lparr>quizContent =
        ?quiz\<lparr>questions := map example_question [''q2'', ''q3'', ''q4'', ''q5'', ''q6'']\<rparr>\<rparr>\<rparr>"
    using run d reuse_example_selected by blast
  then have response: "fst (geminiQuizService reuse_env deck1 user1 (Some 5)) =
     \<lparr>status = 200, request_owner_id = user1,
      message = ''There is already a quiz made for this deck in the 'quiz' collection'',
      data = Some \<lparr>quizContent =
        example_quiz (map example_question [''q2'', ''q3'', ''q4'', ''q5'', ''q6''])\<rparr>\<rparr>"
    unfolding u .
  have names: "reuse_calls deck1 example_doc =
     [GetDeckAndCheckField deck1 ''made_to_quiz_at'',
      GetQuizByDeckIDAndQuizType deck1 ''multiple-choice'',
      GetNewFlashcards deck1 (Some 100),
      GetQuizByID ''quiz1'' ''multiple-choice'']"
    by (simp add: reuse_calls_def lookups_def example_doc_def)
  show ?thesis
    using valid_ids_example a b c calls response names by simp
qed

section \<open>Error statuses of the quiz service\<close>

lemmas example_defs = example_env_def example_doc_def example_quiz_def example_result_def
  deck1_def user1_def

lemmas quiz_service_defs = geminiQuizService_def geminiQuizService_try_def create_path_def
  reconcile_path_def branch_def io_defs respond_def Let_def

text \<open>
  Claim C1, evaluated. With a quiz of eight questions, no newer flashcard and a requested
  count of 20, the selection raises the error named \<open>EXCEEDS_AVAILABLE_CARDS\<close>, but
  the \<open>catch\<close> block chooses the status from the error's message, which is none of
  its cases: the response has status 500 and the generic message, not status 400. The
  same holds when the count is exceeded at the end of the CREATE path and of the
  extending RECONCILE path.
\<close>

theorem exceeds_count_status_500:
  "select_tail (draw reuse_env) (Some 20)
     (example_quiz (map example_question
        [''q1'', ''q2'', ''q3'', ''q4'', ''q5'', ''q6'', ''q7'', ''q8''])) = Inl exceeds_error \<and>
   error_name exceeds_error = ''EXCEEDS_AVAILABLE_CARDS'' \<and>
   fst (geminiQuizService reuse_env deck1 user1 (Some 20)) =
     \<lparr>status = 500, request_owner_id = user1,
      message = ''A server-side error has occurred'', data = None\<rparr> \<and>
   status (fst (geminiQuizService create_env deck1 user1 (Some 5))) = 500 \<and>
   status (fst (geminiQuizService extend_env deck1 user1 (Some 5))) = 500"
proof -
  let ?quiz = "example_quiz (map example_question
        [''q1'', ''q2'', ''q3'', ''q4'', ''q5'', ''q6'', ''q7'', ''q8''])"
  have s: "select_tail (draw reuse_env) (Some 20) ?quiz = Inl exceeds_error"
    by (rule select_tail_exceeds) (simp add: example_quiz_def)
  have v: "\<not> falsy deck1" "typeof deck1 = ''string''" "\<not> falsy user1" "typeof user1 = ''string''"
    by (simp_all add: deck1_def user1_def)
  have "geminiQuizService reuse_env deck1 user1 (Some 20) =
          ((case getQuizByID reuse_env (doc_id example_doc) ''multiple-choice'' of
              Inl error \<Rightarrow> respond user1 (quiz_catch error)
            | Inr quizObject \<Rightarrow>
                select_response reuse_env user1 (Some 20) quizObject
                  ''There is already a quiz made for this deck in the 'quiz' collection''),
           reuse_calls deck1 example_doc)"
    by (rule quiz_reuse_run [OF v]) (simp_all add: reuse_env_def example_env_def)
  moreover have "getQuizByID reuse_env (doc_id example_doc) ''multiple-choice'' = Inr ?quiz"
    by (simp add: reuse_env_def example_env_def)
  ultimately have r: "fst (geminiQuizService reuse_env deck1 user1 (Some 20)) =
     \<lparr>status = 500, request_owner_id = user1,
      message = ''A server-side error has occurred'', data = None\<rparr>"
    using select_response_exceeds [OF s] by simp
  have s1: "select_tail (draw create_env) (Some 5)
      (example_quiz [example_question ''a'', example_question ''b'']) = Inl exceeds_error"
    by (rule select_tail_exceeds) (simp add: example_quiz_def)
  have c: "status (fst (geminiQuizService create_env deck1 user1 (Some 5))) = 500"
    using create_succeeds_run [OF valid_ids_example create_env_succeeds, of "Some 5"]
      select_response_exceeds [OF s1] by simp
  have s2: "select_tail (draw extend_env) (Some 5)
      (example_quiz [example_question ''a'', example_question ''b'', example_question ''c'']) =
      Inl exceeds_error"
    by (rule select_tail_exceeds) (simp add: example_quiz_def)
  have x: "status (fst (geminiQuizService extend_env deck1 user1 (Some 5))) = 500"
    using extend_succeeds_run [OF valid_ids_example extend_env_succeeds, of "Some 5"]
      select_response_exceeds [OF s2] by simp
  show ?thesis
    using s r c x by (simp add: exceeds_error_def)
qed

text \<open>
  Claim C2, evaluated. Generation answers a result whose \<open>quiz_data.quiz\<close> is not an
  array. In the RECONCILE path the shape check stands inside the \<open>try\<close> block, so the
  failure becomes \<open>AI_GENERATION_FAILED\<close> and the status is 502. In the CREATE path the
  same check stands after the \<open>try\<close> block: its error reaches the outer \<open>catch\<close>
  with a message that is none of its cases, and the status is 500.
\<close>

theorem malformed_generation_create_500_reconcile_502:
  "fst (geminiQuizService malformed_create_env deck1 user1 None) =
     \<lparr>status = 500, request_owner_id = user1,
      message = ''A server-side error has occurred'', data = None\<rparr> \<and>
   fst (geminiQuizService malformed_extend_env deck1 user1 None) =
     \<lparr>status = 502, request_owner_id = user1,
      message = ''Quiz creation failed: AI_GENERATION_FAILED'', data = None\<rparr>"
  by (simp add: quiz_service_defs example_defs malformed_create_env_def malformed_extend_env_def
      check_quiz_data_def quiz_catch_def new_Error_def)

section \<open>The runs of the moderation service\<close>

lemmas moderation_defs = geminiModerationService_def geminiModerationService_try_def
  createPublishRequest_def getPublishRequestByDeckId_def read_overall_verdict_def io_defs Let_def

lemma moderation_run:
  assumes "getDeckById e deckId = Inr d" "flashcards d = Some cards"
    and "writeFile e (moderation_tmp_file uid) (Text (formatPrompt cards)) = Inr ()"
    and "sendPromptInline e moderatedFlashcardsSchema moderationPrompt (moderation_tmp_file uid)
           ''txt'' = Inr (Some r)"
    and "quiz_data r = Some qd"
  shows "geminiModerationService e deckId uid =
    (case db_add e ''publish_requests'' (newRequest e uid deckId (overall_verdict_field qd)) of
       Inl error \<Rightarrow>
         (respond uid (moderation_catch error),
          moderation_calls e deckId uid cards (overall_verdict_field qd))
     | Inr ref \<Rightarrow>
         (case db_query e ''publish_requests'' ''deck_id'' deckId 1 of
            Inl error \<Rightarrow>
              (respond uid (moderation_catch error),
               moderation_calls e deckId uid cards (overall_verdict_field qd) @
               [DbQuery ''publish_requests'' ''deck_id'' deckId 1])
          | Inr snapshot \<Rightarrow>
              (\<lparr>status = 200, request_owner_id = uid,
                message = ''Moderation review successful'', data = Some r\<rparr>,
               moderation_calls e deckId uid cards (overall_verdict_field qd) @
               [DbQuery ''publish_requests'' ''deck_id'' deckId 1])))"
  using assms
  by (simp add: moderation_defs moderation_calls_def respond_def
      split: sum.splits list.splits prod.splits)

lemma moderation_env_steps:
  "getDeckById moderation_env deck1 = Inr \<lparr>flashcards = Some [example_card ''a'', example_card ''b'']\<rparr>"
  "writeFile moderation_env (moderation_tmp_file user1)
     (Text (formatPrompt [example_card ''a'', example_card ''b''])) = Inr ()"
  "sendPromptInline moderation_env moderatedFlashcardsSchema moderationPrompt
     (moderation_tmp_file user1) ''txt'' = Inr (Some example_moderation)"
  "quiz_data example_moderation = Some \<lparr>quiz = None, overall_verdict_field = Some example_verdict\<rparr>"
  by (simp_all add: moderation_env_def example_env_def example_moderation_def)

lemma failing_write_env_steps:
  "getDeckById failing_write_env deck1 = Inr \<lparr>flashcards = Some [example_card ''a'', example_card ''b'']\<rparr>"
  "writeFile failing_write_env (moderation_tmp_file user1)
     (Text (formatPrompt [example_card ''a'', example_card ''b''])) = Inr ()"
  "sendPromptInline failing_write_env moderatedFlashcardsSchema moderationPrompt
     (moderation_tmp_file user1) ''txt'' = Inr (Some example_moderation)"
  by (simp_all add: failing_write_env_def moderation_env_def example_env_def)

text \<open>
  Claim C8, as the code has it. The moderation service awaits the recording of the
  publish request inside its \<open>try\<close> block. When the write fails, the response is the
  error response of the \<open>catch\<close> block: no data, the message
  \<open>Moderation review failed:\<close> followed by the error's message, and status 500 (404
  when that message is \<open>DECK_NOT_FOUND\<close> or \<open>NO_VALID_FLASHCARDS\<close>). When the
  write and the lookup that follows it succeed, the response is the verdict payload
  with status 200, whatever document reference the write returned.
\<close>

theorem publish_write_awaited:
  assumes "getDeckById e deckId = Inr d" "flashcards d = Some cards"
    and "writeFile e (moderation_tmp_file uid) (Text (formatPrompt cards)) = Inr ()"
    and "sendPromptInline e moderatedFlashcardsSchema moderationPrompt (moderation_tmp_file uid)
           ''txt'' = Inr (Some r)"
    and "quiz_data r = Some qd"
  shows "(db_add e ''publish_requests'' (newRequest e uid deckId (overall_verdict_field qd)) = Inl error \<longrightarrow>
            fst (geminiModerationService e deckId uid) =
              \<lparr>status = (if error_message error = ''DECK_NOT_FOUND'' \<or>
                             error_message error = ''NO_VALID_FLASHCARDS'' then 404 else 500),
               request_owner_id = uid,
               message = ''Moderation review failed: '' @ error_message error,
               data = None\<rparr>) \<and>
         (db_add e ''publish_requests'' (newRequest e uid deckId (overall_verdict_field qd)) = Inr ref \<and>
          db_query e ''publish_requests'' ''deck_id'' deckId 1 = Inr snapshot \<longrightarrow>
            fst (geminiModerationService e deckId uid) =
              \<lparr>status = 200, request_owner_id = uid,
               message = ''Moderation review successful'', data = Some r\<rparr>)"
  using moderation_run [OF assms]
  by (auto simp: moderation_catch_def respond_def Let_def)

theorem publish_write_awaited_witness:
  "getDeckById moderation_env deck1 =
     Inr \<lparr>flashcards = Some [example_card ''a'', example_card ''b'']\<rparr> \<and>
   writeFile moderation_env (moderation_tmp_file user1)
     (Text (formatPrompt [example_card ''a'', example_card ''b''])) = Inr () \<and>
   sendPromptInline moderation_env moderatedFlashcardsSchema moderationPrompt
     (moderation_tmp_file user1) ''txt'' = Inr (Some example_moderation) \<and>
   db_add moderation_env ''publish_requests''
     (newRequest moderation_env user1 deck1 (Some example_verdict)) = Inr ''request1'' \<and>
   db_query moderation_env ''publish_requests'' ''deck_id'' deck1 1 = Inr [] \<and>
   db_add failing_write_env ''publish_requests''
     (newRequest failing_write_env user1 deck1 (Some example_verdict)) =
     Inl (new_Error ''write failed'') \<and>
   fst (geminiModerationService moderation_env deck1 user1) =
     \<lparr>status = 200, request_owner_id = user1,
      message = ''Moderation review successful'', data = Some example_moderation\<rparr> \<and>
   fst (geminiModerationService failing_write_env deck1 user1) =
     \<lparr>status = 500, request_owner_id = user1,
      message = ''Moderation review failed: write failed'', data = None\<rparr>"
proof -
  have ok: "db_add moderation_env ''publish_requests''
      (newRequest moderation_env user1 deck1 (Some example_verdict)) = Inr ''request1''"
      "db_query moderation_env ''publish_requests'' ''deck_id'' deck1 1 = Inr []"
    by (simp_all add: moderation_env_def example_env_def)
  have bad: "db_add failing_write_env ''publish_requests''
      (newRequest failing_write_env user1 deck1 (Some example_verdict)) =
      Inl (new_Error ''write failed'')"
    by (simp add: failing_write_env_def)
  have m: "error_message (new_Error ''write failed'') = ''write failed''"
    by (simp add: new_Error_def)
  show ?thesis
    using publish_write_awaited [OF moderation_env_steps(1) _ moderation_env_steps(2,3,4),
        where error = "new_Error ''write failed''" and ref = "''request1''" and snapshot = "[]"]
      publish_write_awaited [OF failing_write_env_steps(1) _ failing_write_env_steps(2,3)
        moderation_env_steps(4),
        where error = "new_Error ''write failed''" and ref = "''request1''" and snapshot = "[]"]
      ok bad moderation_env_steps(1,2,3)
    by (simp add: m)
qed

text \<open>
  Two runs on the same deck that differ only in the outcome of the publish-request
  write: the one whose write succeeds answers 200 with the verdict, the one whose write
  fails answers 500 without data.
\<close>

theorem response_depends_on_publish_write:
  "fst (geminiModerationService moderation_env deck1 user1) \<noteq>
   fst (geminiModerationService failing_write_env deck1 user1) \<and>
   status (fst (geminiModerationService moderation_env deck1 user1)) = 200 \<and>
   status (fst (geminiModerationService failing_write_env deck1 user1)) = 500 \<and>
   data (fst (geminiModerationService failing_write_env deck1 user1)) = None"
proof -
  have a: "geminiModerationService moderation_env deck1 user1 =
      (\<lparr>status = 200, request_owner_id = user1,
        message = ''Moderation review successful'', data = Some example_moderation\<rparr>,
       moderation_calls moderation_env deck1 user1 [example_card ''a'', example_card ''b'']
         (Some example_verdict) @ [DbQuery ''publish_requests'' ''deck_id'' deck1 1])"
    using moderation_run [OF moderation_env_steps(1) _ moderation_env_steps(2,3,4)]
    by (simp add: moderation_env_def example_env_def)
  have b: "fst (geminiModerationService failing_write_env deck1 user1) =
      respond user1 (moderation_catch (new_Error ''write failed''))"
    using moderation_run [OF failing_write_env_steps(1) _ failing_write_env_steps(2,3)
        moderation_env_steps(4)]
    by (simp add: failing_write_env_def)
  show ?thesis
    unfolding b using a by (simp add: respond_def moderation_catch_def new_Error_def)
qed

section \<open>Temporary files are never removed\<close>

text \<open>
  No run of either service calls \<open>fs.unlink\<close>, so a file that exists, or that a run
  writes, exists when the run ends.
\<close>

lemma create_never_unlinks:
  "Unlink p \<notin> set tr \<Longrightarrow> Unlink p \<notin> set (snd (create_path e deckId uid n tr))"
  by (auto simp: create_path_def io_defs Let_def split: sum.splits option.splits list.splits prod.splits)

lemma reconcile_never_unlinks:
  "Unlink p \<notin> set tr \<Longrightarrow> Unlink p \<notin> set (snd (reconcile_path e deckId uid n q d tr))"
  by (auto simp: reconcile_path_def io_defs Let_def split: sum.splits option.splits list.splits prod.splits if_splits)

lemma quiz_never_unlinks:
  "Unlink p \<notin> set (snd (geminiQuizService e deckId uid numOfQuiz))"
proof -
  have "Unlink p \<notin> set (snd (geminiQuizService_try e deckId uid numOfQuiz []))"
    using create_never_unlinks [of p _ e deckId uid numOfQuiz]
      reconcile_never_unlinks [of p _ e deckId uid numOfQuiz]
    by (auto simp: geminiQuizService_try_def io_defs Let_def
        split: sum.splits path.splits)
  then show ?thesis
    by (auto simp: geminiQuizService_def split: sum.splits prod.splits)
qed

lemma moderation_never_unlinks:
  "Unlink p \<notin> set (snd (geminiModerationService e deckId uid))"
  by (auto simp: geminiModerationService_def geminiModerationService_try_def
      createPublishRequest_def getPublishRequestByDeckId_def io_defs Let_def
      split: sum.splits option.splits list.splits prod.splits)


lemma files_after_keeps:
  "Unlink p \<notin> set tr \<Longrightarrow> p \<in> files \<Longrightarrow> p \<in> files_after tr files"
  by (induction tr files rule: files_after.induct) auto

lemma files_after_written:
  "Unlink p \<notin> set tr \<Longrightarrow> WriteFile p c \<in> set tr \<Longrightarrow> p \<in> files_after tr files"
  by (induction tr files rule: files_after.induct) (auto simp: files_after_keeps)

text \<open>
  \<open>path.join\<close> normalises the path, so an identifier with dot segments names a file
  elsewhere.
\<close>

lemma quiz_tmp_file_normalised:
  "quiz_tmp_file (JString ''a/../b'') = ''/tmp/b.txt''"
  by (simp add: quiz_tmp_file_def path_join_def normalize_path_def normalizeString_def
      normalize_step_def Let_def)

text \<open>
  Claim C9, evaluated. After a successful run of the quiz service, after a run of the
  quiz service that fails on a malformed generation result, and after a successful run
  of the moderation service, the temporary file written for the generation capability
  still exists: \<open>/tmp/downloadQuiz-user1.txt\<close>, respectively
  \<open>/tmp/moderateDeck-user1.txt\<close>.
\<close>

theorem temp_file_left_behind:
  "status (fst (geminiQuizService create_env deck1 user1 None)) = 200 \<and>
   quiz_tmp_file user1 \<in> files_after (snd (geminiQuizService create_env deck1 user1 None)) {} \<and>
   status (fst (geminiQuizService malformed_create_env deck1 user1 None)) = 500 \<and>
   quiz_tmp_file user1 \<in>
     files_after (snd (geminiQuizService malformed_create_env deck1 user1 None)) {} \<and>
   status (fst (geminiModerationService moderation_env deck1 user1)) = 200 \<and>
   moderation_tmp_file user1 \<in>
     files_after (snd (geminiModerationService moderation_env deck1 user1)) {} \<and>
   quiz_tmp_file user1 = ''/tmp/downloadQuiz-user1.txt'' \<and>
   moderation_tmp_file user1 = ''/tmp/moderateDeck-user1.txt''"
proof -
  have s: "select_tail (draw create_env) None
      (example_quiz [example_question ''a'', example_question ''b'']) =
      Inr (example_quiz [example_question ''b''])"
    by (simp add: select_tail_def select_default fischerYatesShuffle_def ceil_half_def
        create_env_def example_env_def example_quiz_def Let_def)
  have run: "geminiQuizService create_env deck1 user1 None =
      (select_response create_env user1 None
         (example_quiz [example_question ''a'', example_question ''b''])
         (''Quiz creation for deck with id:'' @ template deck1 @ '' is successful''),
       create_calls create_env deck1 user1 [example_card ''a'', example_card ''b'']
         [example_question ''a'', example_question ''b''] ''quiz1'')"
    by (rule create_succeeds_run [OF valid_ids_example create_env_succeeds])
  have q1: "status (fst (geminiQuizService create_env deck1 user1 None)) = 200"
    unfolding run by (simp add: select_response_def s respond_def)
  have q2: "quiz_tmp_file user1 \<in>
      files_after (snd (geminiQuizService create_env deck1 user1 None)) {}"
    unfolding run by (simp add: create_calls_def lookups_def)
  have q3: "status (fst (geminiQuizService malformed_create_env deck1 user1 None)) = 500"
    by (simp add: quiz_service_defs example_defs malformed_create_env_def
        check_quiz_data_def quiz_catch_def new_Error_def)
  have "WriteFile (quiz_tmp_file user1) (JSON_stringify [example_card ''a'', example_card ''b''])
      \<in> set (snd (geminiQuizService malformed_create_env deck1 user1 None))"
    by (simp add: quiz_service_defs example_defs malformed_create_env_def
        check_quiz_data_def quiz_catch_def new_Error_def)
  then have q4: "quiz_tmp_file user1 \<in>
      files_after (snd (geminiQuizService malformed_create_env deck1 user1 None)) {}"
    using files_after_written [OF quiz_never_unlinks] by blast
  have m: "geminiModerationService moderation_env deck1 user1 =
      (\<lparr>status = 200, request_owner_id = user1,
        message = ''Moderation review successful'', data = Some example_moderation\<rparr>,
       moderation_calls moderation_env deck1 user1 [example_card ''a'', example_card ''b'']
         (Some example_verdict) @ [DbQuery ''publish_requests'' ''deck_id'' deck1 1])"
    using moderation_run [OF moderation_env_steps(1) _ moderation_env_steps(2,3,4)]
    by (simp add: moderation_env_def example_env_def)
  have m1: "status (fst (geminiModerationService moderation_env deck1 user1)) = 200"
    unfolding m by simp
  have m2: "moderation_tmp_file user1 \<in>
      files_after (snd (geminiModerationService moderation_env deck1 user1)) {}"
    unfolding m by (simp add: moderation_calls_def)
  have n: "quiz_tmp_file user1 = ''/tmp/downloadQuiz-user1.txt''"
      "moderation_tmp_file user1 = ''/tmp/moderateDeck-user1.txt''"
    by (simp_all add: quiz_tmp_file_def moderation_tmp_file_def path_join_def normalize_path_def
        normalizeString_def normalize_step_def Let_def user1_def)
  show ?thesis
    using q1 q2 q3 q4 m1 m2 n by simp
qed

section \<open>Selection\<close>

lemma reuse_succeeds_run:
  assumes "valid_ids deckId uid" "reuse_succeeds e deckId q quizObject"
  shows "geminiQuizService e deckId uid numOfQuiz =
           (select_response e uid numOfQuiz quizObject
              ''There is already a quiz made for this deck in the 'quiz' collection'',
            reuse_calls deckId q)"
proof -
  obtain deckInfo where di: "getDeckAndCheckField e deckId ''made_to_quiz_at'' = Inr deckInfo"
    using assms(2) by (auto simp: reuse_succeeds_def split: sum.splits)
  obtain qs where qz: "getQuizByDeckIDAndQuizType e deckId ''multiple-choice'' = Inr (Some (q # qs))"
    using assms(2) by (auto simp: reuse_succeeds_def split: sum.splits option.splits list.splits)
  have rest: "getNewFlashcards e deckId (Some (updated_at q)) = Inr []"
      "getQuizByID e (doc_id q) ''multiple-choice'' = Inr quizObject"
    using assms(2) by (simp_all add: reuse_succeeds_def)
  have v: "\<not> falsy deckId" "typeof deckId = ''string''" "\<not> falsy uid" "typeof uid = ''string''"
    using assms(1) by (simp_all add: valid_ids_def)
  show ?thesis
    using quiz_reuse_run [OF v di qz rest(1), of numOfQuiz] rest(2) by simp
qed

lemma select_tail_default:
  "select_tail rnd None quizObject =
     Inr (quizObject\<lparr>questions :=
       take (nat \<lceil>real (length (fischerYatesShuffle rnd (questions quizObject))) * 0.5\<rceil>)
         (fischerYatesShuffle rnd (questions quizObject))\<rparr>)"
  by (simp add: select_tail_def select_default ceil_half_ceiling Let_def)

lemma select_tail_prefix:
  "0 \<le> n \<Longrightarrow> n \<le> int (length (fischerYatesShuffle rnd (questions quizObject))) \<Longrightarrow>
   select_tail rnd (Some n) quizObject =
     Inr (quizObject\<lparr>questions := take (nat n) (fischerYatesShuffle rnd (questions quizObject))\<rparr>)"
  by (simp add: select_tail_def select_prefix Let_def)

lemma select_response_selected:
  "select_tail (draw e) numOfQuiz quizObject = Inr selected \<Longrightarrow>
   status (select_response e uid numOfQuiz quizObject msg) = 200 \<and>
   data (select_response e uid numOfQuiz quizObject msg) = Some \<lparr>quizContent = selected\<rparr>"
  by (simp add: select_response_def respond_def)

lemma reuse_env_succeeds:
  "reuse_succeeds reuse_env deck1 example_doc
     (example_quiz (map example_question
        [''q1'', ''q2'', ''q3'', ''q4'', ''q5'', ''q6'', ''q7'', ''q8'']))"
  by (simp add: reuse_succeeds_def reuse_env_def example_env_def example_doc_def)

text \<open>
  Claim C5. In every run of the service that reaches the selection (at the end of the
  CREATE path, of the extending RECONCILE path or of the reuse path), let \<open>s\<close> be the
  shuffled list of the quiz's questions. With no requested count the response carries
  the quiz with the first \<open>ceil(0.5 * length s)\<close> elements of \<open>s\<close> as its
  questions. With a requested count \<open>n\<close> (a count: not negative) of at most
  \<open>length s\<close> it carries exactly the first \<open>n\<close> elements of \<open>s\<close>: a prefix of
  length \<open>n\<close>, taken after the shuffle. The same is stated of \<open>select_tail\<close>, the
  statements that end each path, and of \<open>select\<close> on any list \<open>xs\<close>.
\<close>

theorem select_default_and_prefix:
  assumes "valid_ids deckId uid"
    and "create_succeeds e deckId uid cards qa quizId quizObject \<or>
         extend_succeeds e deckId uid q newCards newQa quizObject \<or>
         reuse_succeeds e deckId q quizObject"
    and "s = fischerYatesShuffle (draw e) (questions quizObject)"
  shows "status (fst (geminiQuizService e deckId uid None)) = 200 \<and>
    data (fst (geminiQuizService e deckId uid None)) =
      Some \<lparr>quizContent = quizObject\<lparr>questions := take (nat \<lceil>real (length s) * 0.5\<rceil>) s\<rparr>\<rparr> \<and>
    select_tail (draw e) None quizObject =
      Inr (quizObject\<lparr>questions := take (nat \<lceil>real (length s) * 0.5\<rceil>) s\<rparr>) \<and>
    select xs None = Inr (take (nat \<lceil>real (length xs) * 0.5\<rceil>) xs) \<and>
    (0 \<le> n \<and> n \<le> int (length s) \<longrightarrow>
       status (fst (geminiQuizService e deckId uid (Some n))) = 200 \<and>
       data (fst (geminiQuizService e deckId uid (Some n))) =
         Some \<lparr>quizContent = quizObject\<lparr>questions := take (nat n) s\<rparr>\<rparr> \<and>
       select_tail (draw e) (Some n) quizObject =
         Inr (quizObject\<lparr>questions := take (nat n) s\<rparr>) \<and>
       int (length (take (nat n) s)) = n) \<and>
    (0 \<le> n \<and> n \<le> int (length xs) \<longrightarrow>
       select xs (Some n) = Inr (take (nat n) xs) \<and> int (length (take (nat n) xs)) = n)"
proof -
  obtain msg calls where run:
    "\<And>numOfQuiz. geminiQuizService e deckId uid numOfQuiz =
       (select_response e uid numOfQuiz quizObject msg, calls)"
    using assms(2) create_succeeds_run [OF assms(1), of e cards qa quizId quizObject]
      extend_succeeds_run [OF assms(1), of e q newCards newQa quizObject]
      reuse_succeeds_run [OF assms(1), of e q quizObject]
    by blast
  have d: "select_tail (draw e) None quizObject =
      Inr (quizObject\<lparr>questions := take (nat \<lceil>real (length s) * 0.5\<rceil>) s\<rparr>)"
    unfolding assms(3) by (rule select_tail_default)
  have p: "select_tail (draw e) (Some n) quizObject =
      Inr (quizObject\<lparr>questions := take (nat n) s\<rparr>)"
    if "0 \<le> n" "n \<le> int (length s)"
    using that unfolding assms(3) by (rule select_tail_prefix)
  have x: "select xs None = Inr (take (nat \<lceil>real (length xs) * 0.5\<rceil>) xs)"
    by (simp add: select_default ceil_half_ceiling)
  show ?thesis
    using run d p x select_response_selected [OF d, of uid msg]
      select_response_selected [OF p, of uid msg] select_prefix [of n xs]
    by auto
qed

theorem select_default_and_prefix_witness:
  "valid_ids deck1 user1 \<and>
   reuse_succeeds reuse_env deck1 example_doc
     (example_quiz (map example_question
        [''q1'', ''q2'', ''q3'', ''q4'', ''q5'', ''q6'', ''q7'', ''q8''])) \<and>
   fischerYatesShuffle (draw reuse_env)
     (questions (example_quiz (map example_question
        [''q1'', ''q2'', ''q3'', ''q4'', ''q5'', ''q6'', ''q7'', ''q8'']))) =
     map example_question [''q2'', ''q3'', ''q4'', ''q5'', ''q6'', ''q7'', ''q8'', ''q1''] \<and>
   (0::int) \<le> 5 \<and>
   (5::int) \<le> int (length (map example_question
     [''q2'', ''q3'', ''q4'', ''q5'', ''q6'', ''q7'', ''q8'', ''q1''])) \<and>
   data (fst (geminiQuizService reuse_env deck1 user1 None)) =
     Some \<lparr>quizContent =
       example_quiz (map example_question [''q2'', ''q3'', ''q4'', ''q5''])\<rparr> \<and>
   data (fst (geminiQuizService reuse_env deck1 user1 (Some 5))) =
     Some \<lparr>quizContent =
       example_quiz (map example_question [''q2'', ''q3'', ''q4'', ''q5'', ''q6''])\<rparr>"
proof -
  let ?quiz = "example_quiz (map example_question
        [''q1'', ''q2'', ''q3'', ''q4'', ''q5'', ''q6'', ''q7'', ''q8''])"
  let ?s = "map example_question [''q2'', ''q3'', ''q4'', ''q5'', ''q6'', ''q7'', ''q8'', ''q1'']"
  have d: "draw reuse_env = (\<lambda>i. 0)"
    by (simp add: reuse_env_def example_env_def)
  have s: "?s = fischerYatesShuffle (draw reuse_env) (questions ?quiz)"
    unfolding d by (simp add: example_quiz_def shuffle_eight)
  have h: "nat \<lceil>real (length ?s) * 0.5\<rceil> = 4"
    by (simp add: ceil_half_ceiling [symmetric] ceil_half_def)
  have n: "(0::int) \<le> 5" "(5::int) \<le> int (length ?s)"
    by simp_all
  have t4: "?quiz\<lparr>questions := take 4 ?s\<rparr> =
      example_quiz (map example_question [''q2'', ''q3'', ''q4'', ''q5''])"
    by (simp add: example_quiz_def eval_nat_numeral)
  have t5: "?quiz\<lparr>questions := take (nat 5) ?s\<rparr> =
      example_quiz (map example_question [''q2'', ''q3'', ''q4'', ''q5'', ''q6''])"
    by (simp add: example_quiz_def eval_nat_numeral)
  note inst = select_default_and_prefix [OF valid_ids_example _ s,
      where q = example_doc and n = 5, OF disjI2 [OF disjI2 [OF reuse_env_succeeds]]]
  have a: "data (fst (geminiQuizService reuse_env deck1 user1 None)) =
      Some \<lparr>quizContent = ?quiz\<lparr>questions := take 4 ?s\<rparr>\<rparr>"
    using inst unfolding h by blast
  have b: "data (fst (geminiQuizService reuse_env deck1 user1 (Some 5))) =
      Some \<lparr>quizContent = ?quiz\<lparr>questions := take (nat 5) ?s\<rparr>\<rparr>"
    using inst n by blast
  show ?thesis
    using valid_ids_example reuse_env_succeeds s [symmetric] n a b
    unfolding t4 t5 by simp
qed

end
